theory Spec2Isabelle
  imports Main "HOL-Library.Word"
begin

unbundle bit_operations_syntax

section \<open>The DRM/KMS display backend (src/common/drm_display.cpp)\<close>

text \<open>
  The class \<open>DRMDisplay\<close> opens a kernel mode-setting device, picks a connector, a mode
  and a CRTC, and then tracks the framebuffers registered for the buffer objects of a GBM
  surface. Everything outside the class (the kernel, libdrm, libgbm, the logger) is
  modelled as an environment that answers the calls, and every call the code makes is
  recorded, in order, in a list of \<open>call\<close>s, so that the order and the number of
  kernel calls can be stated.
\<close>

subsection \<open>Data of libdrm as the code reads it\<close>

type_synonym u16 = "16 word"
type_synonym u32 = "32 word"

text \<open>\<open>drmModeModeInfo\<close>: only the fields the code reads.\<close>

record drmModeModeInfo =
  hdisplay :: u16
  vdisplay :: u16
  type :: u32

text \<open>The value of libdrm's \<open>DRM_MODE_TYPE_PREFERRED\<close>, \<open>1 << 3\<close>.\<close>

definition DRM_MODE_TYPE_PREFERRED :: u32 where
  "DRM_MODE_TYPE_PREFERRED = 8"

datatype drmModeConnection =
  DRM_MODE_CONNECTED | DRM_MODE_DISCONNECTED | DRM_MODE_UNKNOWNCONNECTION

text \<open>
  \<open>drmModeConnector\<close>: \<open>count_modes\<close> and \<open>count_encoders\<close> are the lengths of
  \<open>modes\<close> and \<open>encoders\<close>; the connector's field \<open>encoder_id\<close> is
  \<open>connector_encoder_id\<close> here (the encoder has a field of the same name).
\<close>

record drmModeConnector =
  connector_id :: u32
  connector_encoder_id :: u32
  connection :: drmModeConnection
  modes :: "drmModeModeInfo list"
  encoders :: "u32 list"

record drmModeEncoder =
  encoder_id :: u32
  crtc_id :: u32
  possible_crtcs :: u32

text \<open>
  \<open>drmModeRes\<close>: three arrays of ids with their counts; \<open>res_encoders\<close> is the field
  \<open>encoders\<close> of the resources.
\<close>

record drmModeRes =
  connectors :: "u32 list"
  res_encoders :: "u32 list"
  crtcs :: "u32 list"

text \<open>Pointers of libgbm are opaque addresses.\<close>

type_synonym gbm_device = nat
type_synonym gbm_surface = nat
type_synonym gbm_bo = nat

subsection \<open>The environment and the calls made to it\<close>

text \<open>
  What the kernel and the libraries answer during \<open>Initialize\<close>. A null pointer is
  \<open>None\<close>; \<open>sys_open\<close> is \<open>open("/dev/dri/card%d", O_RDWR)\<close> as a function of the
  card number, negative on failure.
\<close>

record kms_env =
  sys_open :: "int \<Rightarrow> int"
  drmModeGetResources :: "int \<Rightarrow> drmModeRes option"
  drmModeGetConnector :: "int \<Rightarrow> u32 \<Rightarrow> drmModeConnector option"
  drmModeGetEncoder :: "int \<Rightarrow> u32 \<Rightarrow> drmModeEncoder option"
  gbm_create_device :: "int \<Rightarrow> gbm_device option"

text \<open>
  The calls, with the arguments that identify the object they act on. A freed connector
  or encoder is identified by the object itself. \<open>LogError\<close> carries the format string
  of \<open>Log_ErrorPrintf\<close>.
\<close>

datatype call =
    Open int
  | GetResources int
  | FreeResources
  | GetConnector int u32
  | FreeConnector drmModeConnector
  | GetEncoder int u32
  | FreeEncoder drmModeEncoder
  | GbmCreateDevice int
  | GbmDeviceDestroy gbm_device
  | GbmSurfaceDestroy gbm_surface
  | GbmSurfaceLockFrontBuffer "gbm_surface option"
  | GbmSurfaceReleaseBuffer "gbm_surface option" gbm_bo
  | AddFB2 int u32 u32 u32 u32 u32
  | RmFB int u32
  | SetCrtc int u32 u32 u32 "nat option"
  | PageFlip int u32 u32
  | Select int
  | HandleEvent int
  | Close int
  | LogError string

text \<open>
  Modelled from the spec: the macro \<open>Assert\<close> of common/assert.h, which is not among the
  sources. A failed assertion is a contract violation, fatal to the caller and not a
  recoverable error: the call stops with the fault \<open>AssertionFailed\<close>.
\<close>

text \<open>
  The other ways a call of the class can stop without returning: a null pointer is
  dereferenced, or a \<open>Buffer\<close> pointer that is no entry of the object's array is.
\<close>

datatype fault = NullPointerDereference | AssertionFailed | InvalidPointer

subsection \<open>The object\<close>

record Buffer =
  bo :: gbm_bo
  width :: u32
  height :: u32
  stride :: u32
  format :: u32
  fb_id :: u32

text \<open>
  The fields of \<open>DRMDisplay\<close>. The header drm_display.h is not among the sources; the
  fields are the ones the code uses, and \<open>m_crtc_id\<close> has the type \<open>uint32_t\<close> of the
  ids it is assigned. \<open>m_mode\<close> points into the mode array of \<open>m_connector\<close> and is
  the index of the mode there. \<open>m_buffers\<close> is the array of \<open>MAX_BUFFERS\<close> entries, of
  which the first \<open>m_num_buffers\<close> are tracked.
\<close>

record DRMDisplay =
  m_card_id :: int
  m_card_fd :: int
  m_crtc_id :: u32
  m_connector :: "drmModeConnector option"
  m_mode :: "nat option"
  m_gbm_device :: "gbm_device option"
  m_fb_surface :: "gbm_surface option"
  m_buffers :: "Buffer list"
  m_num_buffers :: nat

text \<open>
  The constant \<open>MAX_BUFFERS\<close> is declared in the header; it is a parameter here, the
  length of the array \<open>m_buffers\<close>.
\<close>

definition MAX_BUFFERS :: "DRMDisplay \<Rightarrow> nat" where
  "MAX_BUFFERS d = length (m_buffers d)"

text \<open>
  The constructor \<open>DRMDisplay(int card)\<close>, for an array of \<open>max_buffers\<close> entries. It
  sets \<open>m_card_id\<close>; the other fields have the defaults that the tests of the code
  presuppose (\<open>Assert(!m_connector)\<close>, \<open>if (!m_mode)\<close>, \<open>if (m_fb_surface)\<close>,
  \<open>if (m_gbm_device)\<close>, \<open>if (m_card_fd >= 0)\<close>, \<open>while (m_num_buffers > 0)\<close>): null
  pointers, a negative descriptor, no tracked buffer.
\<close>

definition DRMDisplay_ctor :: "nat \<Rightarrow> int \<Rightarrow> DRMDisplay" where
  "DRMDisplay_ctor max_buffers card_no =
     \<lparr>m_card_id = card_no, m_card_fd = -1, m_crtc_id = 0, m_connector = None, m_mode = None,
      m_gbm_device = None, m_fb_surface = None,
      m_buffers = replicate max_buffers
        \<lparr>bo = 0, width = 0, height = 0, stride = 0, format = 0, fb_id = 0\<rparr>,
      m_num_buffers = 0\<rparr>"

text \<open>The buffers tracked: the first \<open>m_num_buffers\<close> entries of the array.\<close>

definition tracked :: "DRMDisplay \<Rightarrow> Buffer list" where
  "tracked d = take (m_num_buffers d) (m_buffers d)"

subsection \<open>The destructor\<close>

text \<open>
  \<open>while (m_num_buffers > 0) { Buffer& buffer = m_buffers[--m_num_buffers];
  drmModeRmFB(m_card_fd, buffer.fb_id); }\<close>, by recursion on \<open>m_num_buffers\<close>. The
  reads are within the array as long as \<open>m_num_buffers\<close> is at most \<open>MAX_BUFFERS\<close>.
\<close>

fun rm_buffers :: "int \<Rightarrow> Buffer list \<Rightarrow> nat \<Rightarrow> call list" where
  "rm_buffers fd bufs 0 = []"
| "rm_buffers fd bufs (Suc n) = RmFB fd (fb_id (bufs ! n)) # rm_buffers fd bufs n"

definition DRMDisplay_dtor :: "DRMDisplay \<Rightarrow> call list" where
  "DRMDisplay_dtor d =
     rm_buffers (m_card_fd d) (m_buffers d) (m_num_buffers d)
     @ (case m_fb_surface d of Some sf \<Rightarrow> [GbmSurfaceDestroy sf] | None \<Rightarrow> [])
     @ (case m_gbm_device d of Some g \<Rightarrow> [GbmDeviceDestroy g] | None \<Rightarrow> [])
     @ (case m_connector d of Some c \<Rightarrow> [FreeConnector c] | None \<Rightarrow> [])
     @ (if 0 \<le> m_card_fd d then [Close (m_card_fd d)] else [])"

subsection \<open>Finding a CRTC\<close>

text \<open>
  \<open>find_crtc_for_encoder\<close>: the loop over \<open>resources->crtcs\<close>, from position \<open>i\<close>.
  \<open>1 << i\<close> is \<open>push_bit i 1\<close>, which is 0 from position 32 on, where the shift of the
  code is undefined (the mask \<open>possible_crtcs\<close> has 32 bits, one for each CRTC the
  kernel can list). \<open>return -1\<close> in a function that returns \<open>uint32_t\<close> is the word
  \<open>- 1\<close>, that is \<open>0xFFFFFFFF\<close>.
\<close>

fun find_crtc_from :: "nat \<Rightarrow> u32 list \<Rightarrow> drmModeEncoder \<Rightarrow> u32" where
  "find_crtc_from i [] encoder = - 1"
| "find_crtc_from i (c # cs) encoder =
     (if possible_crtcs encoder AND push_bit i 1 \<noteq> 0 then c
      else find_crtc_from (Suc i) cs encoder)"

definition find_crtc_for_encoder :: "drmModeRes \<Rightarrow> drmModeEncoder \<Rightarrow> u32" where
  "find_crtc_for_encoder resources encoder = find_crtc_from 0 (crtcs resources) encoder"

text \<open>
  \<open>find_crtc_for_connector\<close>: the loop over \<open>connector->encoders\<close>. An encoder the
  kernel does not return is skipped; the first other encoder whose result is not 0 ends
  the loop.
\<close>

fun find_crtc_loop ::
  "kms_env \<Rightarrow> int \<Rightarrow> drmModeRes \<Rightarrow> u32 list \<Rightarrow> u32 \<times> call list" where
  "find_crtc_loop env card_fd resources [] = (- 1, [])"
| "find_crtc_loop env card_fd resources (eid # eids) =
     (case drmModeGetEncoder env card_fd eid of
        None \<Rightarrow>
          (case find_crtc_loop env card_fd resources eids of
             (r, evs) \<Rightarrow> (r, GetEncoder card_fd eid # evs))
      | Some encoder \<Rightarrow>
          if find_crtc_for_encoder resources encoder \<noteq> 0
          then (find_crtc_for_encoder resources encoder,
                [GetEncoder card_fd eid, FreeEncoder encoder])
          else (case find_crtc_loop env card_fd resources eids of
                  (r, evs) \<Rightarrow> (r, GetEncoder card_fd eid # FreeEncoder encoder # evs)))"

definition find_crtc_for_connector ::
  "kms_env \<Rightarrow> int \<Rightarrow> drmModeRes \<Rightarrow> drmModeConnector \<Rightarrow> u32 \<times> call list" where
  "find_crtc_for_connector env card_fd resources connector =
     find_crtc_loop env card_fd resources (encoders connector)"

subsection \<open>Initialize\<close>

text \<open>
  The connector loop (lines 100 to 110): \<open>next_connector\<close> is dereferenced without a
  test, the first connected connector ends the loop, every other one is freed.
\<close>

fun scan_connectors ::
  "kms_env \<Rightarrow> int \<Rightarrow> u32 list \<Rightarrow> fault + (drmModeConnector option \<times> call list)" where
  "scan_connectors env fd [] = Inr (None, [])"
| "scan_connectors env fd (cid # cids) =
     (case drmModeGetConnector env fd cid of
        None \<Rightarrow> Inl NullPointerDereference
      | Some next_connector \<Rightarrow>
          if connection next_connector = DRM_MODE_CONNECTED
          then Inr (Some next_connector, [GetConnector fd cid])
          else (case scan_connectors env fd cids of
                  Inl f \<Rightarrow> Inl f
                | Inr (r, evs) \<Rightarrow>
                    Inr (r, GetConnector fd cid # FreeConnector next_connector # evs)))"

text \<open>
  \<open>next_mode->hdisplay * next_mode->vdisplay\<close>: both fields are \<open>uint16_t\<close>, promoted
  to \<open>int\<close>, and the product is a 32-bit signed value. A product of \<open>2^31\<close> or more
  overflows \<open>int\<close>; the wrap-around of the machine is written out.
\<close>

definition mode_area :: "drmModeModeInfo \<Rightarrow> int" where
  "mode_area m = sint ((ucast (hdisplay m) :: 32 word) * ucast (vdisplay m))"

definition preferred :: "drmModeModeInfo \<Rightarrow> bool" where
  "preferred m = (type m AND DRM_MODE_TYPE_PREFERRED \<noteq> 0)"

text \<open>
  The mode loop (lines 119 to 132), from position \<open>i\<close> with the current \<open>m_mode\<close>.
\<close>

function select_mode :: "drmModeModeInfo list \<Rightarrow> nat \<Rightarrow> nat option \<Rightarrow> nat option" where
  "select_mode ms i cur =
     (if i < length ms then
        (if preferred (ms ! i) then Some i
         else if (case cur of None \<Rightarrow> True
                  | Some j \<Rightarrow> mode_area (ms ! j) < mode_area (ms ! i))
         then select_mode ms (Suc i) (Some i)
         else select_mode ms (Suc i) cur)
      else cur)"
  by pat_completeness auto
termination
  by (relation "measure (\<lambda>(ms, i, cur). length ms - i)") auto

declare select_mode.simps [simp del]

text \<open>
  The encoder loop (lines 141 to 153): \<open>next_encoder\<close> is dereferenced without a test;
  the first encoder whose id is the connector's \<open>encoder_id\<close> ends the loop.
\<close>

fun find_encoder ::
  "kms_env \<Rightarrow> int \<Rightarrow> u32 list \<Rightarrow> u32 \<Rightarrow> fault + (drmModeEncoder option \<times> call list)" where
  "find_encoder env fd [] wanted = Inr (None, [])"
| "find_encoder env fd (eid # eids) wanted =
     (case drmModeGetEncoder env fd eid of
        None \<Rightarrow> Inl NullPointerDereference
      | Some next_encoder \<Rightarrow>
          if encoder_id next_encoder = wanted
          then Inr (Some next_encoder, [GetEncoder fd eid])
          else (case find_encoder env fd eids wanted of
                  Inl f \<Rightarrow> Inl f
                | Inr (r, evs) \<Rightarrow>
                    Inr (r, GetEncoder fd eid # FreeEncoder next_encoder # evs)))"

text \<open>Lines 170 to 179: the resources are freed and the GBM device is created.\<close>

definition Initialize_gbm ::
  "kms_env \<Rightarrow> DRMDisplay \<Rightarrow> call list \<Rightarrow> bool \<times> DRMDisplay \<times> call list" where
  "Initialize_gbm env d evs =
     (let d' = d\<lparr>m_gbm_device := gbm_create_device env (m_card_fd d)\<rparr>;
          evs' = evs @ [FreeResources, GbmCreateDevice (m_card_fd d)]
      in if m_gbm_device d' = None
         then (False, d', evs' @ [LogError ''gbm_create_device() failed: %d''])
         else (True, d', evs'))"

text \<open>
  Lines 141 to 168, for the connector \<open>c\<close> that \<open>m_connector\<close> points to: the encoder
  loop, then either the CRTC of the encoder found or \<open>find_crtc_for_connector\<close>.
\<close>

definition Initialize_crtc ::
  "kms_env \<Rightarrow> drmModeRes \<Rightarrow> drmModeConnector \<Rightarrow> DRMDisplay \<Rightarrow> call list
     \<Rightarrow> fault + (bool \<times> DRMDisplay \<times> call list)" where
  "Initialize_crtc env resources c d evs =
     (case find_encoder env (m_card_fd d) (res_encoders resources) (connector_encoder_id c) of
        Inl f \<Rightarrow> Inl f
      | Inr (Some encoder, evs1) \<Rightarrow>
          Inr (Initialize_gbm env (d\<lparr>m_crtc_id := crtc_id encoder\<rparr>)
                 (evs @ evs1 @ [FreeEncoder encoder]))
      | Inr (None, evs1) \<Rightarrow>
          (case find_crtc_for_connector env (m_card_fd d) resources c of
             (crtc, evs2) \<Rightarrow>
               if crtc = 0
               then Inr (False, d\<lparr>m_crtc_id := crtc\<rparr>,
                         evs @ evs1 @ evs2 @ [LogError ''No CRTC found'', FreeResources])
               else Inr (Initialize_gbm env (d\<lparr>m_crtc_id := crtc\<rparr>) (evs @ evs1 @ evs2))))"

text \<open>Lines 119 to 139: the mode loop and the test of its result.\<close>

definition Initialize_mode ::
  "kms_env \<Rightarrow> drmModeRes \<Rightarrow> drmModeConnector \<Rightarrow> DRMDisplay \<Rightarrow> call list
     \<Rightarrow> fault + (bool \<times> DRMDisplay \<times> call list)" where
  "Initialize_mode env resources c d evs =
     (let d' = d\<lparr>m_mode := select_mode (modes c) 0 (m_mode d)\<rparr>
      in if m_mode d' = None
         then Inr (False, d', evs @ [LogError ''No mode found'', FreeResources])
         else Initialize_crtc env resources c d' evs)"

text \<open>
  \<open>Initialize\<close>: the result is a fault, or the value returned with the object and the
  calls made.
\<close>

definition Initialize ::
  "kms_env \<Rightarrow> DRMDisplay \<Rightarrow> fault + (bool \<times> DRMDisplay \<times> call list)" where
  "Initialize env d0 =
     (let d = d0\<lparr>m_card_fd := sys_open env (m_card_id d0)\<rparr>
      in if m_card_fd d < 0
         then Inr (False, d,
                   [Open (m_card_id d), LogError ''open(/dev/dri/card%d) failed: %d (%s)''])
         else
           (case drmModeGetResources env (m_card_fd d) of
              None \<Rightarrow>
                Inr (False, d,
                     [Open (m_card_id d), GetResources (m_card_fd d),
                      LogError ''drmModeGetResources() failed: %d (%s)''])
            | Some resources \<Rightarrow>
                if m_connector d \<noteq> None then Inl AssertionFailed
                else
                  (case scan_connectors env (m_card_fd d) (connectors resources) of
                     Inl f \<Rightarrow> Inl f
                   | Inr (None, evs) \<Rightarrow>
                       Inr (False, d,
                            [Open (m_card_id d), GetResources (m_card_fd d)] @ evs
                            @ [LogError ''No connector found'', FreeResources])
                   | Inr (Some c, evs) \<Rightarrow>
                       Initialize_mode env resources c (d\<lparr>m_connector := Some c\<rparr>)
                         ([Open (m_card_id d), GetResources (m_card_fd d)] @ evs))))"

subsection \<open>The tracked buffers\<close>

text \<open>
  What libgbm answers about the buffer object locked: \<open>gbm_bo_get_width\<close>,
  \<open>gbm_bo_get_height\<close>, \<open>gbm_bo_get_stride\<close>, \<open>gbm_bo_get_format\<close> and
  \<open>gbm_bo_get_handle(bo).u32\<close>.
\<close>

record bo_info =
  bo_width :: u32
  bo_height :: u32
  bo_stride :: u32
  bo_format :: u32
  bo_handle :: u32

text \<open>
  The search loop of \<open>LockFrontBuffer\<close> (lines 201 to 208), from position \<open>i\<close>:
  \<open>for (u32 i = 0; i < m_num_buffers; i++) if (m_buffers[i].bo == bo) ...\<close>. The
  reads are within the array as long as \<open>m_num_buffers\<close> is at most \<open>MAX_BUFFERS\<close>.
\<close>

function find_buffer :: "Buffer list \<Rightarrow> nat \<Rightarrow> nat \<Rightarrow> gbm_bo \<Rightarrow> nat option" where
  "find_buffer bufs n i b =
     (if i < n then (if bo (bufs ! i) = b then Some i else find_buffer bufs n (Suc i) b)
      else None)"
  by pat_completeness auto
termination
  by (relation "measure (\<lambda>(bufs, n, i, b). n - i)") auto

declare find_buffer.simps [simp del]

text \<open>
  \<open>LockFrontBuffer\<close>. \<open>b\<close> is the buffer object that
  \<open>gbm_surface_lock_front_buffer\<close> returns, \<open>info\<close> what libgbm answers about it, and
  \<open>addfb\<close> the answer of \<open>drmModeAddFB2\<close>: its return code and the framebuffer id,
  which libdrm stores through \<open>&buffer->fb_id\<close> only when the code is 0. The
  \<open>Buffer\<close> pointer returned is the index of the entry in \<open>m_buffers\<close>, \<open>None\<close>
  for the null pointer.
\<close>

definition LockFrontBuffer ::
  "DRMDisplay \<Rightarrow> gbm_bo \<Rightarrow> bo_info \<Rightarrow> int \<times> u32
     \<Rightarrow> fault + (nat option \<times> DRMDisplay \<times> call list)" where
  "LockFrontBuffer d b info addfb =
     (case find_buffer (m_buffers d) (m_num_buffers d) 0 b of
        Some i \<Rightarrow> Inr (Some i, d, [GbmSurfaceLockFrontBuffer (m_fb_surface d)])
      | None \<Rightarrow>
          if \<not> m_num_buffers d < MAX_BUFFERS d then Inl AssertionFailed
          else
            (let n = m_num_buffers d;
                 buffer = (m_buffers d ! n)
                   \<lparr>bo := b, width := bo_width info, height := bo_height info,
                    stride := bo_stride info, format := bo_format info\<rparr>;
                 evs = [GbmSurfaceLockFrontBuffer (m_fb_surface d),
                        AddFB2 (m_card_fd d) (width buffer) (height buffer) (format buffer)
                          (bo_handle info) (stride buffer)]
             in if fst addfb \<noteq> 0
                then Inr (None, d\<lparr>m_buffers := (m_buffers d)[n := buffer]\<rparr>,
                          evs @ [LogError ''drmModeAddFB2() failed: %d''])
                else Inr (Some n,
                          d\<lparr>m_buffers := (m_buffers d)[n := buffer\<lparr>fb_id := snd addfb\<rparr>],
                            m_num_buffers := n + 1\<rparr>,
                          evs)))"

text \<open>Reading through a \<open>Buffer\<close> pointer.\<close>

definition deref :: "DRMDisplay \<Rightarrow> nat option \<Rightarrow> fault + Buffer" where
  "deref d buffer =
     (case buffer of
        None \<Rightarrow> Inl NullPointerDereference
      | Some i \<Rightarrow> if i < length (m_buffers d) then Inr (m_buffers d ! i) else Inl InvalidPointer)"

definition ReleaseBuffer :: "DRMDisplay \<Rightarrow> nat option \<Rightarrow> fault + (DRMDisplay \<times> call list)" where
  "ReleaseBuffer d buffer =
     (case deref d buffer of
        Inl f \<Rightarrow> Inl f
      | Inr buf \<Rightarrow> Inr (d, [GbmSurfaceReleaseBuffer (m_fb_surface d) (bo buf)]))"

subsection \<open>Presenting\<close>

text \<open>
  One answer of \<open>select\<close> in the wait loop: a negative result, 0, or a positive result,
  after which \<open>drmHandleEvent\<close> runs and either calls the page-flip handler (which
  clears \<open>waiting_for_flip\<close>) or does not.
\<close>

datatype select_result = SelectFailed | SelectNone | SelectReady bool

text \<open>
  The wait loop (lines 270 to 287) over the answers of \<open>select\<close>. The loop has no
  bound: when the answers end before the flip is handled, the call never returns, which
  is \<open>None\<close>.
\<close>

fun wait_for_flip :: "int \<Rightarrow> select_result list \<Rightarrow> call list option" where
  "wait_for_flip fd [] = None"
| "wait_for_flip fd (SelectFailed # rs) = Some [Select fd, LogError ''select() failed: %d'']"
| "wait_for_flip fd (SelectNone # rs) = map_option ((#) (Select fd)) (wait_for_flip fd rs)"
| "wait_for_flip fd (SelectReady flipped # rs) =
     (if flipped then Some [Select fd, HandleEvent fd]
      else map_option (\<lambda>evs. Select fd # HandleEvent fd # evs) (wait_for_flip fd rs))"

text \<open>
  \<open>PresentSurface\<close> returns \<open>void\<close>: what the caller has after the call is the object.
  \<open>res\<close> is the return code of \<open>drmModeSetCrtc\<close> or of \<open>drmModePageFlip\<close>, \<open>rs\<close>
  the answers of \<open>select\<close>. \<open>None\<close>: the call does not return.
\<close>

definition PresentSurface ::
  "DRMDisplay \<Rightarrow> nat option \<Rightarrow> bool \<Rightarrow> int \<Rightarrow> select_result list
     \<Rightarrow> (fault + (DRMDisplay \<times> call list)) option" where
  "PresentSurface d buffer wait_for_vsync res rs =
     (if \<not> wait_for_vsync then
        (case m_connector d of
           None \<Rightarrow> Some (Inl NullPointerDereference)
         | Some c \<Rightarrow>
             (case deref d buffer of
                Inl f \<Rightarrow> Some (Inl f)
              | Inr buf \<Rightarrow>
                  Some (Inr (d,
                    SetCrtc (m_card_fd d) (m_crtc_id d) (fb_id buf) (connector_id c) (m_mode d)
                    # (if res \<noteq> 0 then [LogError ''drmModeSetCrtc() failed: %d''] else [])))))
      else
        (case deref d buffer of
           Inl f \<Rightarrow> Some (Inl f)
         | Inr buf \<Rightarrow>
             if res \<noteq> 0
             then Some (Inr (d, [PageFlip (m_card_fd d) (m_crtc_id d) (fb_id buf),
                                 LogError ''drmModePageFlip() failed: %d'']))
             else map_option
                    (\<lambda>evs. Inr (d, PageFlip (m_card_fd d) (m_crtc_id d) (fb_id buf) # evs))
                    (wait_for_flip (m_card_fd d) rs)))"

subsection \<open>Sequences of calls on the tracked buffers\<close>

text \<open>
  A call of \<open>LockFrontBuffer\<close>, with the answers of the libraries to it, or a call of
  \<open>ReleaseBuffer\<close>; \<open>run\<close> makes the calls in order and stops at the first fault.
\<close>

datatype op = Lock gbm_bo bo_info "int \<times> u32" | Release "nat option"

fun run :: "DRMDisplay \<Rightarrow> op list \<Rightarrow> fault + DRMDisplay" where
  "run d [] = Inr d"
| "run d (Lock b info addfb # ops) =
     (case LockFrontBuffer d b info addfb of
        Inl f \<Rightarrow> Inl f
      | Inr (p, d', evs) \<Rightarrow> run d' ops)"
| "run d (Release p # ops) =
     (case ReleaseBuffer d p of
        Inl f \<Rightarrow> Inl f
      | Inr (d', evs) \<Rightarrow> run d' ops)"

subsection \<open>Predicates and example values used in the statements\<close>

text \<open>
  The invariant of the tracked buffers: the count is within the array, and no buffer
  object is tracked twice.
\<close>

definition buffers_ok :: "DRMDisplay \<Rightarrow> bool" where
  "buffers_ok d = (m_num_buffers d \<le> MAX_BUFFERS d \<and> distinct (map bo (tracked d)))"

text \<open>
  \<open>first_largest ms n k\<close>: among the first \<open>n\<close> modes, the mode at \<open>k\<close> has the
  largest area as the code computes it, and is the first that has it.
\<close>

definition first_largest :: "drmModeModeInfo list \<Rightarrow> nat \<Rightarrow> nat \<Rightarrow> bool" where
  "first_largest ms n k =
     (k < n \<and> list_all (\<lambda>j. mode_area (ms ! j) \<le> mode_area (ms ! k)) [0..<n]
      \<and> list_all (\<lambda>j. mode_area (ms ! j) < mode_area (ms ! k)) [0..<k])"

text \<open>
  A device with an unplugged connector 6 and a connected connector 7, which advertises
  1920x1080 (preferred) and 3840x2160 and is bound to encoder 20, which drives CRTC 40.
\<close>

definition example_modes :: "drmModeModeInfo list" where
  "example_modes = [\<lparr>hdisplay = 1920, vdisplay = 1080, type = 72\<rparr>,
                    \<lparr>hdisplay = 3840, vdisplay = 2160, type = 64\<rparr>]"

definition unplugged_connector :: drmModeConnector where
  "unplugged_connector =
     \<lparr>connector_id = 6, connector_encoder_id = 0, connection = DRM_MODE_DISCONNECTED,
      modes = [], encoders = []\<rparr>"

definition example_connector :: drmModeConnector where
  "example_connector =
     \<lparr>connector_id = 7, connector_encoder_id = 20, connection = DRM_MODE_CONNECTED,
      modes = example_modes, encoders = [20]\<rparr>"

definition example_encoder :: drmModeEncoder where
  "example_encoder = \<lparr>encoder_id = 20, crtc_id = 40, possible_crtcs = 1\<rparr>"

definition example_resources :: drmModeRes where
  "example_resources = \<lparr>connectors = [6, 7], res_encoders = [20], crtcs = [40, 41]\<rparr>"

text \<open>
  The device as an environment, for a connector 7 \<open>conn\<close> and an encoder 20
  \<open>enc\<close>; the descriptor opened is 3 and the GBM device created is 1.
\<close>

definition device_env :: "drmModeConnector \<Rightarrow> drmModeEncoder \<Rightarrow> kms_env" where
  "device_env conn enc =
     \<lparr>sys_open = (\<lambda>card_no. 3),
      drmModeGetResources = (\<lambda>fd. Some example_resources),
      drmModeGetConnector =
        (\<lambda>fd cid. if cid = 6 then Some unplugged_connector
                   else if cid = 7 then Some conn else None),
      drmModeGetEncoder = (\<lambda>fd eid. if eid = 20 then Some enc else None),
      gbm_create_device = (\<lambda>fd. Some 1)\<rparr>"

definition example_env :: kms_env where
  "example_env = device_env example_connector example_encoder"

text \<open>The object after \<open>Initialize\<close> on that device, with an array of two entries.\<close>

definition initialized_display :: DRMDisplay where
  "initialized_display =
     \<lparr>m_card_id = 0, m_card_fd = 3, m_crtc_id = 40, m_connector = Some example_connector,
      m_mode = Some 0, m_gbm_device = Some 1, m_fb_surface = None,
      m_buffers = [\<lparr>bo = 0, width = 0, height = 0, stride = 0, format = 0, fb_id = 0\<rparr>,
                   \<lparr>bo = 0, width = 0, height = 0, stride = 0, format = 0, fb_id = 0\<rparr>],
      m_num_buffers = 0\<rparr>"

text \<open>
  Three modes without the preferred flag; the second and the third have the same area.
\<close>

definition plain_modes :: "drmModeModeInfo list" where
  "plain_modes = [\<lparr>hdisplay = 1920, vdisplay = 1080, type = 64\<rparr>,
                  \<lparr>hdisplay = 3840, vdisplay = 2160, type = 64\<rparr>,
                  \<lparr>hdisplay = 2160, vdisplay = 3840, type = 64\<rparr>]"

text \<open>
  Two modes without the preferred flag; the area of the first, 4294836225, is beyond
  \<open>int\<close>.
\<close>

definition huge_modes :: "drmModeModeInfo list" where
  "huge_modes = [\<lparr>hdisplay = 65535, vdisplay = 65535, type = 64\<rparr>,
                 \<lparr>hdisplay = 1, vdisplay = 1, type = 64\<rparr>]"

text \<open>
  A buffer object at address 100, 1920x1080 with stride 7680 and format XR24, registered
  as framebuffer 77, and the object that tracks it in an array of two entries.
\<close>

definition example_info :: bo_info where
  "example_info = \<lparr>bo_width = 1920, bo_height = 1080, bo_stride = 7680,
                    bo_format = 875713112, bo_handle = 5\<rparr>"

definition example_entry :: Buffer where
  "example_entry = \<lparr>bo = 100, width = 1920, height = 1080, stride = 7680,
                     format = 875713112, fb_id = 77\<rparr>"

definition empty_entry :: Buffer where
  "empty_entry = \<lparr>bo = 0, width = 0, height = 0, stride = 0, format = 0, fb_id = 0\<rparr>"

definition example_display :: DRMDisplay where
  "example_display =
     \<lparr>m_card_id = 0, m_card_fd = 3, m_crtc_id = 40, m_connector = Some example_connector,
      m_mode = Some 0, m_gbm_device = Some 1, m_fb_surface = Some 2,
      m_buffers = [example_entry, empty_entry],
      m_num_buffers = 1\<rparr>"

text \<open>An object whose array of two entries is full.\<close>

definition full_display :: DRMDisplay where
  "full_display =
     \<lparr>m_card_id = 0, m_card_fd = - 1, m_crtc_id = 0, m_connector = None,
      m_mode = None, m_gbm_device = None, m_fb_surface = None,
      m_buffers = [example_entry, example_entry\<lparr>bo := 200, fb_id := 79\<rparr>],
      m_num_buffers = 2\<rparr>"

section \<open>Properties\<close>

subsection \<open>The search loop and the tracked buffers\<close>

lemma rm_buffers_rev:
  "n \<le> length bufs \<Longrightarrow> rm_buffers fd bufs n = map (\<lambda>b. RmFB fd (fb_id b)) (rev (take n bufs))"
  by (induction n) (simp_all add: take_Suc_conv_app_nth)

lemma find_buffer_None:
  "find_buffer bufs n i b = None \<longleftrightarrow> (\<forall>j. i \<le> j \<and> j < n \<longrightarrow> bo (bufs ! j) \<noteq> b)"
proof (induction bufs n i b rule: find_buffer.induct)
  case (1 bufs n i b)
  show ?case
  proof (cases "i < n")
    case False
    then show ?thesis by (simp add: find_buffer.simps[of bufs n i b])
  next
    case True
    show ?thesis
    proof (cases "bo (bufs ! i) = b")
      case True
      with \<open>i < n\<close> show ?thesis by (auto simp: find_buffer.simps[of bufs n i b])
    next
      case False
      with \<open>i < n\<close> 1 have "find_buffer bufs n i b = None \<longleftrightarrow> (\<forall>j. Suc i \<le> j \<and> j < n \<longrightarrow> bo (bufs ! j) \<noteq> b)"
        by (simp add: find_buffer.simps[of bufs n i b])
      also have "\<dots> \<longleftrightarrow> (\<forall>j. i \<le> j \<and> j < n \<longrightarrow> bo (bufs ! j) \<noteq> b)"
        using False by (metis Suc_leI le_neq_implies_less Suc_leD)
      finally show ?thesis .
    qed
  qed
qed

lemma find_buffer_Some:
  "find_buffer bufs n i b = Some k \<longleftrightarrow>
     i \<le> k \<and> k < n \<and> bo (bufs ! k) = b \<and> (\<forall>j. i \<le> j \<and> j < k \<longrightarrow> bo (bufs ! j) \<noteq> b)"
proof (induction bufs n i b rule: find_buffer.induct)
  case (1 bufs n i b)
  show ?case
  proof (cases "i < n")
    case False
    then show ?thesis by (auto simp: find_buffer.simps[of bufs n i b])
  next
    case True
    show ?thesis
    proof (cases "bo (bufs ! i) = b")
      case True
      with \<open>i < n\<close> show ?thesis
        by (auto simp: find_buffer.simps[of bufs n i b])
    next
      case False
      with \<open>i < n\<close> 1 have "find_buffer bufs n i b = Some k \<longleftrightarrow>
         Suc i \<le> k \<and> k < n \<and> bo (bufs ! k) = b \<and> (\<forall>j. Suc i \<le> j \<and> j < k \<longrightarrow> bo (bufs ! j) \<noteq> b)"
        by (simp add: find_buffer.simps[of bufs n i b])
      also have "\<dots> \<longleftrightarrow> i \<le> k \<and> k < n \<and> bo (bufs ! k) = b \<and> (\<forall>j. i \<le> j \<and> j < k \<longrightarrow> bo (bufs ! j) \<noteq> b)"
        using False by (metis Suc_leI le_neq_implies_less Suc_leD)
      finally show ?thesis .
    qed
  qed
qed


lemma bo_tracked_iff:
  assumes "n \<le> length bufs"
  shows "b \<in> bo ` set (take n bufs) \<longleftrightarrow> (\<exists>j<n. bo (bufs ! j) = b)"
proof
  assume "b \<in> bo ` set (take n bufs)"
  then obtain x where x: "x \<in> set (take n bufs)" and b: "b = bo x" by blast
  from x obtain j where "j < length (take n bufs)" and "take n bufs ! j = x"
    by (auto simp only: in_set_conv_nth)
  with assms b show "\<exists>j<n. bo (bufs ! j) = b" by auto
next
  assume "\<exists>j<n. bo (bufs ! j) = b"
  then obtain j where j: "j < n" and b: "bo (bufs ! j) = b" by blast
  from j assms have "take n bufs ! j \<in> set (take n bufs)" by (intro nth_mem) simp
  with j b show "b \<in> bo ` set (take n bufs)" by force
qed

lemma find_buffer_unseen:
  "m_num_buffers d \<le> MAX_BUFFERS d \<Longrightarrow> b \<notin> bo ` set (tracked d) \<Longrightarrow>
   find_buffer (m_buffers d) (m_num_buffers d) 0 b = None"
  by (simp add: find_buffer_None tracked_def MAX_BUFFERS_def bo_tracked_iff)

lemma find_buffer_seen:
  assumes "m_num_buffers d \<le> MAX_BUFFERS d" and "distinct (map bo (tracked d))"
    and "i < m_num_buffers d" and "bo (m_buffers d ! i) = b"
  shows "find_buffer (m_buffers d) (m_num_buffers d) 0 b = Some i"
proof -
  have "bo (m_buffers d ! j) \<noteq> b" if "j < i" for j
  proof
    assume eq: "bo (m_buffers d ! j) = b"
    have len: "length (map bo (tracked d)) = m_num_buffers d"
      using assms(1) by (simp add: tracked_def MAX_BUFFERS_def)
    have "map bo (tracked d) ! j = map bo (tracked d) ! i"
      using that assms(1,3,4) eq by (simp add: tracked_def MAX_BUFFERS_def)
    moreover have "j < length (map bo (tracked d))" "i < length (map bo (tracked d))"
      using len that assms(3) by simp_all
    ultimately have "j = i"
      using assms(2) nth_eq_iff_index_eq by blast
    with that show False by simp
  qed
  with assms(3,4) show ?thesis by (simp add: find_buffer_Some)
qed


lemma LockFrontBuffer_hit:
  assumes "m_num_buffers d \<le> MAX_BUFFERS d" and "distinct (map bo (tracked d))"
    and "i < m_num_buffers d" and "bo (m_buffers d ! i) = b"
  shows "LockFrontBuffer d b info addfb =
           Inr (Some i, d, [GbmSurfaceLockFrontBuffer (m_fb_surface d)])"
  using find_buffer_seen [OF assms] by (simp add: LockFrontBuffer_def)

lemma LockFrontBuffer_failed:
  assumes "b \<notin> bo ` set (tracked d)" and "m_num_buffers d < MAX_BUFFERS d" and "fst addfb \<noteq> 0"
  shows "LockFrontBuffer d b info addfb =
           Inr (None,
                d\<lparr>m_buffers := (m_buffers d)[m_num_buffers d := (m_buffers d ! m_num_buffers d)
                   \<lparr>bo := b, width := bo_width info, height := bo_height info,
                    stride := bo_stride info, format := bo_format info\<rparr>]\<rparr>,
                [GbmSurfaceLockFrontBuffer (m_fb_surface d),
                 AddFB2 (m_card_fd d) (bo_width info) (bo_height info) (bo_format info)
                   (bo_handle info) (bo_stride info),
                 LogError ''drmModeAddFB2() failed: %d''])"
proof -
  have "find_buffer (m_buffers d) (m_num_buffers d) 0 b = None"
    using assms(1,2) by (intro find_buffer_unseen) simp_all
  with assms(2,3) show ?thesis by (simp add: LockFrontBuffer_def Let_def)
qed

lemma LockFrontBuffer_registered:
  assumes "b \<notin> bo ` set (tracked d)" and "m_num_buffers d < MAX_BUFFERS d" and "fst addfb = 0"
  shows "LockFrontBuffer d b info addfb =
           Inr (Some (m_num_buffers d),
                d\<lparr>m_buffers := (m_buffers d)[m_num_buffers d := (m_buffers d ! m_num_buffers d)
                   \<lparr>bo := b, width := bo_width info, height := bo_height info,
                    stride := bo_stride info, format := bo_format info, fb_id := snd addfb\<rparr>],
                  m_num_buffers := m_num_buffers d + 1\<rparr>,
                [GbmSurfaceLockFrontBuffer (m_fb_surface d),
                 AddFB2 (m_card_fd d) (bo_width info) (bo_height info) (bo_format info)
                   (bo_handle info) (bo_stride info)])"
proof -
  have "find_buffer (m_buffers d) (m_num_buffers d) 0 b = None"
    using assms(1,2) by (intro find_buffer_unseen) simp_all
  with assms(2,3) show ?thesis by (simp add: LockFrontBuffer_def Let_def)
qed

lemma LockFrontBuffer_full:
  assumes "b \<notin> bo ` set (tracked d)" and "m_num_buffers d = MAX_BUFFERS d"
  shows "LockFrontBuffer d b info addfb = Inl AssertionFailed"
proof -
  have "find_buffer (m_buffers d) (m_num_buffers d) 0 b = None"
    using assms by (intro find_buffer_unseen) simp_all
  with assms(2) show ?thesis by (simp add: LockFrontBuffer_def)
qed

lemma LockFrontBuffer_cases:
  assumes "m_num_buffers d \<le> MAX_BUFFERS d"
  obtains (hit) i where "i < m_num_buffers d" "bo (m_buffers d ! i) = b"
      "LockFrontBuffer d b info addfb = Inr (Some i, d, [GbmSurfaceLockFrontBuffer (m_fb_surface d)])"
  | (full) "b \<notin> bo ` set (tracked d)" "m_num_buffers d = MAX_BUFFERS d"
  | (failed) "b \<notin> bo ` set (tracked d)" "m_num_buffers d < MAX_BUFFERS d" "fst addfb \<noteq> 0"
  | (registered) "b \<notin> bo ` set (tracked d)" "m_num_buffers d < MAX_BUFFERS d" "fst addfb = 0"
proof (cases "find_buffer (m_buffers d) (m_num_buffers d) 0 b")
  case None
  then have "b \<notin> bo ` set (tracked d)"
    using assms by (simp add: find_buffer_None tracked_def MAX_BUFFERS_def bo_tracked_iff)
  with assms full failed registered show ?thesis
    by (cases "m_num_buffers d = MAX_BUFFERS d"; cases "fst addfb = 0") auto
next
  case (Some i)
  then have "LockFrontBuffer d b info addfb =
      Inr (Some i, d, [GbmSurfaceLockFrontBuffer (m_fb_surface d)])"
    by (simp add: LockFrontBuffer_def)
  moreover from Some have "i < m_num_buffers d" "bo (m_buffers d ! i) = b"
    by (simp_all add: find_buffer_Some)
  ultimately show ?thesis by (intro hit[of i])
qed

lemma LockFrontBuffer_buffers_ok:
  assumes "buffers_ok d" and "LockFrontBuffer d b info addfb = Inr (p, d', evs)"
  shows "buffers_ok d' \<and> MAX_BUFFERS d' = MAX_BUFFERS d"
proof -
  from assms(1) have le: "m_num_buffers d \<le> MAX_BUFFERS d"
    and dist: "distinct (map bo (tracked d))" by (simp_all add: buffers_ok_def)
  from le show ?thesis
  proof (cases rule: LockFrontBuffer_cases [where b = b and info = info and addfb = addfb])
    case (hit i)
    with assms show ?thesis by simp
  next
    case full
    with assms(2) show ?thesis by (simp add: LockFrontBuffer_full)
  next
    case failed
    from LockFrontBuffer_failed [OF failed, of info] assms(2) failed(2) dist le
    show ?thesis
      by (auto simp: buffers_ok_def tracked_def MAX_BUFFERS_def)
  next
    case registered
    from LockFrontBuffer_registered [OF registered, of info] assms(2) registered dist le
    show ?thesis
      by (auto simp: buffers_ok_def tracked_def MAX_BUFFERS_def take_Suc_conv_app_nth)
  qed
qed

lemma ReleaseBuffer_same:
  "ReleaseBuffer d p = Inr (d', evs) \<Longrightarrow> d' = d"
  by (auto simp: ReleaseBuffer_def split: sum.splits)

lemma run_buffers_ok:
  "buffers_ok d \<Longrightarrow> run d ops = Inr d' \<Longrightarrow> buffers_ok d' \<and> MAX_BUFFERS d' = MAX_BUFFERS d"
proof (induction ops arbitrary: d)
  case Nil
  then show ?case by simp
next
  case (Cons x ops)
  show ?case
  proof (cases x)
    case (Lock b info addfb)
    with Cons.prems(2) obtain p d1 evs where
      l: "LockFrontBuffer d b info addfb = Inr (p, d1, evs)" and r: "run d1 ops = Inr d'"
      by (auto split: sum.splits)
    from LockFrontBuffer_buffers_ok [OF Cons.prems(1) l]
    have "buffers_ok d1" and m: "MAX_BUFFERS d1 = MAX_BUFFERS d" by simp_all
    with Cons.IH [of d1] r show ?thesis by simp
  next
    case (Release p)
    with Cons.prems(2) obtain d1 evs where
      l: "ReleaseBuffer d p = Inr (d1, evs)" and r: "run d1 ops = Inr d'"
      by (auto split: sum.splits)
    from ReleaseBuffer_same [OF l] have "d1 = d" .
    with Cons.IH [of d] r Cons.prems(1) show ?thesis by simp
  qed
qed

lemma run_append:
  "run d (xs @ ys) = (case run d xs of Inl f \<Rightarrow> Inl f | Inr d' \<Rightarrow> run d' ys)"
proof (induction xs arbitrary: d)
  case Nil
  then show ?case by simp
next
  case (Cons x xs)
  then show ?case by (cases x) (simp_all split: sum.splits)
qed

lemma tracked_update_beyond:
  "tracked (d\<lparr>m_buffers := (m_buffers d)[m_num_buffers d := x]\<rparr>) = tracked d"
  by (simp add: tracked_def)

text \<open>
  C5. A buffer object that is tracked, at entry \<open>i\<close>, is found again: \<open>LockFrontBuffer\<close>
  returns the pointer to entry \<open>i\<close>, the object (and with it the entry: framebuffer id,
  width, height, stride, format) is unchanged, and the only call made is
  \<open>gbm_surface_lock_front_buffer\<close>, so no framebuffer is registered.
  \<open>ReleaseBuffer\<close> of that entry gives the buffer object back to the surface and leaves
  the object unchanged too, so the same holds for a lock after a release.
\<close>

theorem lock_tracked_buffer_again:
  assumes "m_num_buffers d \<le> MAX_BUFFERS d" and "distinct (map bo (tracked d))"
    and "i < m_num_buffers d" and "bo (m_buffers d ! i) = b"
  shows "LockFrontBuffer d b info addfb =
           Inr (Some i, d, [GbmSurfaceLockFrontBuffer (m_fb_surface d)])
         \<and> ReleaseBuffer d (Some i) =
           Inr (d, [GbmSurfaceReleaseBuffer (m_fb_surface d) b])"
proof -
  have "i < length (m_buffers d)"
    using assms(1,3) by (simp add: MAX_BUFFERS_def)
  with assms(4) have "ReleaseBuffer d (Some i) =
      Inr (d, [GbmSurfaceReleaseBuffer (m_fb_surface d) b])"
    by (simp add: ReleaseBuffer_def deref_def)
  with LockFrontBuffer_hit [OF assms] show ?thesis by simp
qed

theorem lock_tracked_buffer_again_witness:
  "LockFrontBuffer (example_display\<lparr>m_buffers := [empty_entry, empty_entry],
                      m_num_buffers := 0\<rparr>) 100 example_info (0, 77) =
     Inr (Some 0, example_display,
          [GbmSurfaceLockFrontBuffer (Some 2), AddFB2 3 1920 1080 875713112 5 7680])
   \<and> ReleaseBuffer example_display (Some 0) =
     Inr (example_display, [GbmSurfaceReleaseBuffer (Some 2) 100])
   \<and> LockFrontBuffer example_display 100 example_info (0, 78) =
     Inr (Some 0, example_display, [GbmSurfaceLockFrontBuffer (Some 2)])
   \<and> fb_id (m_buffers example_display ! 0) = 77"
proof -
  have "LockFrontBuffer (example_display\<lparr>m_buffers := [empty_entry, empty_entry],
                      m_num_buffers := 0\<rparr>) 100 example_info (0, 77) =
     Inr (Some 0, example_display,
          [GbmSurfaceLockFrontBuffer (Some 2), AddFB2 3 1920 1080 875713112 5 7680])"
    by (simp add: LockFrontBuffer_def find_buffer.simps MAX_BUFFERS_def example_display_def
        example_entry_def empty_entry_def example_info_def Let_def)
  then show ?thesis
    using lock_tracked_buffer_again [of example_display 0 100 example_info "(0, 78)"]
    by (simp add: example_display_def example_entry_def MAX_BUFFERS_def tracked_def)
qed

text \<open>
  C6. When the buffer object is not tracked, there is room, and \<open>drmModeAddFB2\<close> fails,
  \<open>LockFrontBuffer\<close> returns the null pointer, the count and the tracked entries are
  unchanged, the buffer object is still not tracked, and every later lock of the same
  buffer object calls \<open>drmModeAddFB2\<close> again.
\<close>

theorem failed_registration_not_tracked:
  assumes "b \<notin> bo ` set (tracked d)" and "m_num_buffers d < MAX_BUFFERS d"
    and "fst addfb \<noteq> 0"
  shows "\<exists>d' evs. LockFrontBuffer d b info addfb = Inr (None, d', evs)
           \<and> m_num_buffers d' = m_num_buffers d \<and> tracked d' = tracked d
           \<and> b \<notin> bo ` set (tracked d')
           \<and> (\<forall>info' addfb'. \<exists>p d'' evs'.
                 LockFrontBuffer d' b info' addfb' = Inr (p, d'', evs')
                 \<and> AddFB2 (m_card_fd d') (bo_width info') (bo_height info') (bo_format info')
                      (bo_handle info') (bo_stride info') \<in> set evs')"
proof -
  define d' where "d' = d\<lparr>m_buffers := (m_buffers d)[m_num_buffers d := (m_buffers d ! m_num_buffers d)
                   \<lparr>bo := b, width := bo_width info, height := bo_height info,
                    stride := bo_stride info, format := bo_format info\<rparr>]\<rparr>"
  have l: "LockFrontBuffer d b info addfb = Inr (None, d',
                [GbmSurfaceLockFrontBuffer (m_fb_surface d),
                 AddFB2 (m_card_fd d) (bo_width info) (bo_height info) (bo_format info)
                   (bo_handle info) (bo_stride info),
                 LogError ''drmModeAddFB2() failed: %d''])"
    unfolding d'_def by (rule LockFrontBuffer_failed [OF assms])
  have n: "m_num_buffers d' = m_num_buffers d" by (simp add: d'_def)
  have t: "tracked d' = tracked d" unfolding d'_def by (rule tracked_update_beyond)
  have u: "b \<notin> bo ` set (tracked d')" using assms(1) t by simp
  have m: "m_num_buffers d' < MAX_BUFFERS d'"
    using assms(2) by (simp add: d'_def MAX_BUFFERS_def)
  have again: "\<exists>p d'' evs'.
                 LockFrontBuffer d' b info' addfb' = Inr (p, d'', evs')
                 \<and> AddFB2 (m_card_fd d') (bo_width info') (bo_height info') (bo_format info')
                      (bo_handle info') (bo_stride info') \<in> set evs'" for info' addfb'
  proof (cases "fst addfb' = 0")
    case True
    from LockFrontBuffer_registered [OF u m True, of info'] show ?thesis by simp
  next
    case False
    from LockFrontBuffer_failed [OF u m False, of info'] show ?thesis by simp
  qed
  from l n t u again show ?thesis by blast
qed

theorem failed_registration_not_tracked_witness:
  "\<exists>d' evs. LockFrontBuffer example_display 200 example_info (-22, 0) = Inr (None, d', evs)
     \<and> m_num_buffers d' = 1 \<and> tracked d' = [example_entry]
     \<and> (\<exists>p d'' evs'. LockFrontBuffer d' 200 example_info (0, 78) = Inr (p, d'', evs')
          \<and> AddFB2 3 1920 1080 875713112 5 7680 \<in> set evs')"
proof -
  have "(200::nat) \<notin> bo ` set (tracked example_display)"
    by (simp add: example_display_def example_entry_def tracked_def)
  moreover have "m_num_buffers example_display < MAX_BUFFERS example_display"
    by (simp add: example_display_def MAX_BUFFERS_def)
  moreover have "fst (-22 :: int, 0 :: u32) \<noteq> 0" by simp
  ultimately obtain d' evs where
    1: "LockFrontBuffer example_display 200 example_info (-22, 0) = Inr (None, d', evs)"
    and 2: "m_num_buffers d' = m_num_buffers example_display" "tracked d' = tracked example_display"
    and 3: "\<forall>info' addfb'. \<exists>p d'' evs'.
                 LockFrontBuffer d' 200 info' addfb' = Inr (p, d'', evs')
                 \<and> AddFB2 (m_card_fd d') (bo_width info') (bo_height info') (bo_format info')
                      (bo_handle info') (bo_stride info') \<in> set evs'"
    using failed_registration_not_tracked [of 200 example_display "(-22, 0)" example_info]
    by blast
  from 1 have fd: "m_card_fd d' = 3"
    by (auto simp: LockFrontBuffer_def Let_def example_display_def split: option.splits if_splits)
  from 3 [rule_format, of example_info "(0, 78)"] fd
  have "\<exists>p d'' evs'. LockFrontBuffer d' 200 example_info (0, 78) = Inr (p, d'', evs')
          \<and> AddFB2 3 1920 1080 875713112 5 7680 \<in> set evs'"
    by (simp add: example_info_def)
  with 1 2 show ?thesis
    by (simp add: example_display_def tracked_def)
qed

text \<open>
  C7. From an object that tracks nothing, after any sequence of \<open>LockFrontBuffer\<close> and
  \<open>ReleaseBuffer\<close> calls that returns, no buffer object is tracked twice and the count
  is at most \<open>MAX_BUFFERS\<close>, which does not change. When the array is full, the lock
  of a buffer object that is not tracked is an assertion failure, not a returned error.
\<close>

theorem tracked_buffers_invariant:
  assumes "m_num_buffers d0 = 0" and "run d0 ops = Inr d"
  shows "distinct (map bo (tracked d)) \<and> m_num_buffers d \<le> MAX_BUFFERS d
         \<and> MAX_BUFFERS d = MAX_BUFFERS d0
         \<and> (\<forall>b info addfb. b \<notin> bo ` set (tracked d) \<and> m_num_buffers d = MAX_BUFFERS d \<longrightarrow>
               LockFrontBuffer d b info addfb = Inl AssertionFailed
               \<and> run d0 (ops @ [Lock b info addfb]) = Inl AssertionFailed)"
proof -
  from assms(1) have "buffers_ok d0" by (simp add: buffers_ok_def tracked_def)
  from run_buffers_ok [OF this assms(2)]
  have ok: "buffers_ok d" and m: "MAX_BUFFERS d = MAX_BUFFERS d0" by simp_all
  have "LockFrontBuffer d b info addfb = Inl AssertionFailed
        \<and> run d0 (ops @ [Lock b info addfb]) = Inl AssertionFailed"
    if "b \<notin> bo ` set (tracked d)" "m_num_buffers d = MAX_BUFFERS d" for b info addfb
    using LockFrontBuffer_full [OF that, of info addfb] assms(2) by (simp add: run_append)
  with ok m show ?thesis by (simp add: buffers_ok_def)
qed

lemma run_example:
  "run (DRMDisplay_ctor 2 0)
      [Lock 100 example_info (0, 77), Release (Some 0), Lock 100 example_info (0, 78),
       Lock 200 example_info (0, 79)] = Inr full_display"
  by (simp add: DRMDisplay_ctor_def LockFrontBuffer_def ReleaseBuffer_def deref_def
      find_buffer.simps MAX_BUFFERS_def numeral_2_eq_2 example_info_def example_entry_def
      full_display_def Let_def)

theorem tracked_buffers_invariant_witness:
  "run (DRMDisplay_ctor 2 0)
      [Lock 100 example_info (0, 77), Release (Some 0), Lock 100 example_info (0, 78),
       Lock 200 example_info (0, 79)] = Inr full_display
   \<and> distinct (map bo (tracked full_display))
   \<and> m_num_buffers full_display \<le> MAX_BUFFERS full_display
   \<and> MAX_BUFFERS full_display = 2
   \<and> LockFrontBuffer full_display 300 example_info (0, 80) = Inl AssertionFailed
   \<and> run (DRMDisplay_ctor 2 0)
      ([Lock 100 example_info (0, 77), Release (Some 0), Lock 100 example_info (0, 78),
        Lock 200 example_info (0, 79)] @ [Lock 300 example_info (0, 80)])
       = Inl AssertionFailed"
proof -
  have 0: "m_num_buffers (DRMDisplay_ctor 2 0) = 0" by (simp add: DRMDisplay_ctor_def)
  have 1: "(300::nat) \<notin> bo ` set (tracked full_display)"
    by (simp add: full_display_def tracked_def example_entry_def)
  have 2: "m_num_buffers full_display = MAX_BUFFERS full_display"
    by (simp add: full_display_def MAX_BUFFERS_def)
  have 3: "MAX_BUFFERS (DRMDisplay_ctor 2 0) = 2"
    by (simp add: DRMDisplay_ctor_def MAX_BUFFERS_def)
  from tracked_buffers_invariant [OF 0 run_example] 1 2 3 run_example show ?thesis
    by simp
qed

text \<open>
  C10. On the path where \<open>drmModeAddFB2\<close> fails, \<open>LockFrontBuffer\<close> has locked the
  front buffer, makes no call of \<open>gbm_surface_release_buffer\<close>, and returns the null
  pointer, which \<open>ReleaseBuffer\<close> cannot be called with.
\<close>

theorem failed_registration_keeps_buffer_locked:
  assumes "b \<notin> bo ` set (tracked d)" and "m_num_buffers d < MAX_BUFFERS d"
    and "fst addfb \<noteq> 0"
  shows "\<exists>d' evs. LockFrontBuffer d b info addfb = Inr (None, d', evs)
           \<and> GbmSurfaceLockFrontBuffer (m_fb_surface d) \<in> set evs
           \<and> (\<forall>sf b'. GbmSurfaceReleaseBuffer sf b' \<notin> set evs)
           \<and> ReleaseBuffer d' None = Inl NullPointerDereference"
  using LockFrontBuffer_failed [OF assms, of info]
  by (simp add: ReleaseBuffer_def deref_def)

theorem failed_registration_keeps_buffer_locked_witness:
  "\<exists>d' evs. LockFrontBuffer example_display 200 example_info (-22, 0) = Inr (None, d', evs)
     \<and> GbmSurfaceLockFrontBuffer (Some 2) \<in> set evs
     \<and> GbmSurfaceReleaseBuffer (Some 2) 200 \<notin> set evs
     \<and> ReleaseBuffer d' None = Inl NullPointerDereference"
proof -
  have "(200::nat) \<notin> bo ` set (tracked example_display)"
    by (simp add: example_display_def example_entry_def tracked_def)
  moreover have "m_num_buffers example_display < MAX_BUFFERS example_display"
    by (simp add: example_display_def MAX_BUFFERS_def)
  moreover have "fst (-22 :: int, 0 :: u32) \<noteq> 0" by simp
  ultimately show ?thesis
    using failed_registration_keeps_buffer_locked [of 200 example_display "(-22, 0)" example_info]
    by (auto simp: example_display_def)
qed

subsection \<open>The destructor\<close>

text \<open>
  C9. The destructor removes the framebuffers of the tracked buffers, last registered
  first, then destroys the surface, then the GBM device, then frees the connector, then
  closes the descriptor; each of the last four only if the object holds it.
\<close>

theorem teardown_order:
  assumes "m_num_buffers d \<le> MAX_BUFFERS d"
  shows "DRMDisplay_dtor d =
           map (\<lambda>buffer. RmFB (m_card_fd d) (fb_id buffer)) (rev (tracked d))
           @ (case m_fb_surface d of Some sf \<Rightarrow> [GbmSurfaceDestroy sf] | None \<Rightarrow> [])
           @ (case m_gbm_device d of Some g \<Rightarrow> [GbmDeviceDestroy g] | None \<Rightarrow> [])
           @ (case m_connector d of Some c \<Rightarrow> [FreeConnector c] | None \<Rightarrow> [])
           @ (if 0 \<le> m_card_fd d then [Close (m_card_fd d)] else [])"
  using assms by (simp add: DRMDisplay_dtor_def rm_buffers_rev tracked_def MAX_BUFFERS_def)

theorem teardown_order_witness:
  "DRMDisplay_dtor (example_display\<lparr>m_buffers := [example_entry, example_entry\<lparr>bo := 200, fb_id := 79\<rparr>],
       m_num_buffers := 2\<rparr>) =
     [RmFB 3 79, RmFB 3 77, GbmSurfaceDestroy 2, GbmDeviceDestroy 1,
      FreeConnector example_connector, Close 3]
   \<and> DRMDisplay_dtor (DRMDisplay_ctor 2 0) = []"
  using teardown_order [of "example_display\<lparr>m_buffers := [example_entry, example_entry\<lparr>bo := 200, fb_id := 79\<rparr>],
       m_num_buffers := 2\<rparr>"]
    teardown_order [of "DRMDisplay_ctor 2 0"]
  by (simp add: example_display_def example_entry_def MAX_BUFFERS_def tracked_def
      DRMDisplay_ctor_def)

subsection \<open>The mode loop\<close>

lemma mode_area_exact:
  assumes "unat (hdisplay m) * unat (vdisplay m) < 2 ^ 31"
  shows "mode_area m = int (unat (hdisplay m) * unat (vdisplay m))"
proof -
  let ?x = "ucast (hdisplay m) :: 32 word" and ?y = "ucast (vdisplay m) :: 32 word"
  let ?p = "uint (hdisplay m) * uint (vdisplay m)"
  have p: "?p = int (unat (hdisplay m) * unat (vdisplay m))"
    by simp
  have "int (unat (hdisplay m) * unat (vdisplay m)) < int (2 ^ 31)"
    using assms by (simp only: of_nat_less_iff)
  with p have lt: "?p < 2 ^ 31" by simp
  have ge: "0 \<le> ?p" by simp
  have "uint ?x = uint (hdisplay m)" "uint ?y = uint (vdisplay m)"
    by (simp_all add: uint_up_ucast is_up)
  then have "uint (?x * ?y) = ?p mod 2 ^ 32"
    by (simp add: uint_word_ariths)
  also have "\<dots> = ?p" using lt ge by simp
  finally have u: "uint (?x * ?y) = ?p" .
  have "- (2 ^ 31) \<le> (0::int)" by simp
  from this ge have neg: "- (2 ^ 31) \<le> ?p" by (rule order_trans)
  have "sint (?x * ?y) = signed_take_bit 31 (uint (?x * ?y))"
    by (simp add: sint_uint)
  also have "\<dots> = signed_take_bit 31 ?p" by (simp only: u)
  also have "\<dots> = ?p"
    by (rule signed_take_bit_int_eq_self [OF neg lt])
  finally have "sint (?x * ?y) = ?p" .
  then show ?thesis by (simp add: mode_area_def)
qed

lemma first_largest_iff:
  "first_largest ms n k \<longleftrightarrow>
     k < n \<and> (\<forall>j<n. mode_area (ms ! j) \<le> mode_area (ms ! k))
     \<and> (\<forall>j<k. mode_area (ms ! j) < mode_area (ms ! k))"
  by (auto simp: first_largest_def list_all_iff)

lemma first_largest_step_new:
  assumes "first_largest ms i j" and "mode_area (ms ! j) < mode_area (ms ! i)"
  shows "first_largest ms (Suc i) i"
  unfolding first_largest_iff
proof (intro conjI allI impI)
  show "i < Suc i" by simp
next
  fix l assume "l < Suc i"
  then consider "l < i" | "l = i" by linarith
  then show "mode_area (ms ! l) \<le> mode_area (ms ! i)"
    using assms by cases (force simp: first_largest_iff)+
next
  fix l assume "l < i"
  with assms show "mode_area (ms ! l) < mode_area (ms ! i)"
    by (force simp: first_largest_iff)
qed

lemma first_largest_step_keep:
  assumes "first_largest ms i j" and "\<not> mode_area (ms ! j) < mode_area (ms ! i)"
  shows "first_largest ms (Suc i) j"
  using assms by (auto simp: first_largest_iff less_Suc_eq)

lemma select_mode_end: "\<not> i < length ms \<Longrightarrow> select_mode ms i cur = cur"
  by (subst select_mode.simps) simp

lemma select_mode_pref: "i < length ms \<Longrightarrow> preferred (ms ! i) \<Longrightarrow> select_mode ms i cur = Some i"
  by (subst select_mode.simps) simp

lemma select_mode_first:
  "i < length ms \<Longrightarrow> \<not> preferred (ms ! i) \<Longrightarrow>
   select_mode ms i None = select_mode ms (Suc i) (Some i)"
  by (subst select_mode.simps) simp

lemma select_mode_new:
  "i < length ms \<Longrightarrow> \<not> preferred (ms ! i) \<Longrightarrow> mode_area (ms ! j) < mode_area (ms ! i) \<Longrightarrow>
   select_mode ms i (Some j) = select_mode ms (Suc i) (Some i)"
  by (subst select_mode.simps) simp

lemma select_mode_keep:
  "i < length ms \<Longrightarrow> \<not> preferred (ms ! i) \<Longrightarrow> \<not> mode_area (ms ! j) < mode_area (ms ! i) \<Longrightarrow>
   select_mode ms i (Some j) = select_mode ms (Suc i) (Some j)"
  by (subst select_mode.simps) simp

lemma select_mode_largest:
  assumes "\<forall>l. i \<le> l \<and> l < length ms \<longrightarrow> \<not> preferred (ms ! l)"
    and "first_largest ms i j" and "i \<le> length ms"
  shows "\<exists>k. select_mode ms i (Some j) = Some k \<and> first_largest ms (length ms) k"
  using assms
proof (induction n \<equiv> "length ms - i" arbitrary: i j)
  case 0
  then have "i = length ms" by simp
  with "0.prems"(2) show ?case by (simp add: select_mode_end)
next
  case (Suc n)
  then have lt: "i < length ms" by simp
  with Suc.prems(1) have np: "\<not> preferred (ms ! i)" by simp
  have rest: "\<forall>l. Suc i \<le> l \<and> l < length ms \<longrightarrow> \<not> preferred (ms ! l)"
    using Suc.prems(1) by simp
  have n: "n = length ms - Suc i" using Suc.hyps(2) by simp
  have le: "Suc i \<le> length ms" using lt by simp
  show ?case
  proof (cases "mode_area (ms ! j) < mode_area (ms ! i)")
    case True
    from Suc.hyps(1) [OF n rest first_largest_step_new [OF Suc.prems(2) True] le]
    show ?thesis unfolding select_mode_new [OF lt np True] .
  next
    case False
    from Suc.hyps(1) [OF n rest first_largest_step_keep [OF Suc.prems(2) False] le]
    show ?thesis unfolding select_mode_keep [OF lt np False] .
  qed
qed

lemma select_mode_no_preferred:
  assumes "ms \<noteq> []" and "\<forall>m\<in>set ms. \<not> preferred m"
  shows "\<exists>k. select_mode ms 0 None = Some k \<and> first_largest ms (length ms) k"
proof -
  from assms(1) have len: "0 < length ms" by simp
  from assms(2) have all: "\<not> preferred (ms ! l)" if "l < length ms" for l
    using that nth_mem by blast
  from all [OF len] have np: "\<not> preferred (ms ! 0)" .
  have s: "select_mode ms 0 None = select_mode ms (Suc 0) (Some 0)"
    by (rule select_mode_first [OF len np])
  have f: "first_largest ms (Suc 0) 0" unfolding first_largest_iff by simp
  have r: "\<forall>l. Suc 0 \<le> l \<and> l < length ms \<longrightarrow> \<not> preferred (ms ! l)"
    using all by blast
  from len have le: "Suc 0 \<le> length ms" by linarith
  from select_mode_largest [OF r f le] show ?thesis unfolding s .
qed

lemma select_mode_preferred:
  assumes "k < length ms" and "preferred (ms ! k)"
    and "\<forall>j. i \<le> j \<and> j < k \<longrightarrow> \<not> preferred (ms ! j)" and "i \<le> k"
  shows "select_mode ms i cur = Some k"
  using assms(3,4)
proof (induction n \<equiv> "k - i" arbitrary: i cur)
  case 0
  then have "i = k" by simp
  with assms(1,2) show ?case by (simp add: select_mode_pref)
next
  case (Suc n)
  then have lt: "i < k" by simp
  with assms(1) have len: "i < length ms" by simp
  from lt Suc.prems(1) have np: "\<not> preferred (ms ! i)" by simp
  have rest: "\<forall>j. Suc i \<le> j \<and> j < k \<longrightarrow> \<not> preferred (ms ! j)"
    using Suc.prems(1) by simp
  have n: "n = k - Suc i" using Suc.hyps(2) by simp
  have le: "Suc i \<le> k" using lt by simp
  have IH: "select_mode ms (Suc i) c = Some k" for c
    by (rule Suc.hyps(1) [OF n rest le])
  show ?case
  proof (cases cur)
    case None
    have "select_mode ms i None = select_mode ms (Suc i) (Some i)"
      by (rule select_mode_first [OF len np])
    with IH None show ?thesis by simp
  next
    case (Some j)
    show ?thesis
    proof (cases "mode_area (ms ! j) < mode_area (ms ! i)")
      case True
      have "select_mode ms i (Some j) = select_mode ms (Suc i) (Some i)"
        by (rule select_mode_new [OF len np True])
      with IH Some show ?thesis by simp
    next
      case False
      have "select_mode ms i (Some j) = select_mode ms (Suc i) (Some j)"
        by (rule select_mode_keep [OF len np False])
      with IH Some show ?thesis by simp
    qed
  qed
qed


lemma select_mode_nonempty:
  assumes "ms \<noteq> []"
  shows "\<exists>k<length ms. select_mode ms 0 None = Some k"
proof (cases "\<exists>k<length ms. preferred (ms ! k)")
  case True
  define k where "k = (LEAST k. k < length ms \<and> preferred (ms ! k))"
  from True have k: "k < length ms \<and> preferred (ms ! k)"
    unfolding k_def by (rule LeastI_ex)
  have "\<not> (j < length ms \<and> preferred (ms ! j))" if "j < k" for j
    using that unfolding k_def by (rule not_less_Least)
  with k have "\<forall>j. 0 \<le> j \<and> j < k \<longrightarrow> \<not> preferred (ms ! j)" by auto
  with k have "select_mode ms 0 None = Some k"
    by (intro select_mode_preferred) simp_all
  with k show ?thesis by blast
next
  case False
  then have "\<forall>m\<in>set ms. \<not> preferred m"
    by (metis in_set_conv_nth)
  from select_mode_no_preferred [OF assms this] show ?thesis
    by (auto simp: first_largest_iff)
qed

subsection \<open>The connector, encoder and CRTC loops\<close>

lemma scan_connectors_found:
  assumes "\<forall>x\<in>set pre. \<exists>c'. drmModeGetConnector env fd x = Some c'
             \<and> connection c' \<noteq> DRM_MODE_CONNECTED"
    and "drmModeGetConnector env fd cid = Some c" and "connection c = DRM_MODE_CONNECTED"
  shows "scan_connectors env fd (pre @ cid # post) =
           Inr (Some c,
                concat (map (\<lambda>x. [GetConnector fd x,
                                    FreeConnector (the (drmModeGetConnector env fd x))]) pre)
                @ [GetConnector fd cid])"
  using assms by (induction pre) auto

lemma scan_connectors_none:
  assumes "\<forall>x\<in>set ids. \<exists>c'. drmModeGetConnector env fd x = Some c'
             \<and> connection c' \<noteq> DRM_MODE_CONNECTED"
  shows "scan_connectors env fd ids =
           Inr (None,
                concat (map (\<lambda>x. [GetConnector fd x,
                                    FreeConnector (the (drmModeGetConnector env fd x))]) ids))"
  using assms by (induction ids) auto

lemma find_encoder_found:
  assumes "\<forall>x\<in>set pre. \<exists>e'. drmModeGetEncoder env fd x = Some e' \<and> encoder_id e' \<noteq> wanted"
    and "drmModeGetEncoder env fd eid = Some e" and "encoder_id e = wanted"
  shows "find_encoder env fd (pre @ eid # post) wanted =
           Inr (Some e,
                concat (map (\<lambda>x. [GetEncoder fd x,
                                    FreeEncoder (the (drmModeGetEncoder env fd x))]) pre)
                @ [GetEncoder fd eid])"
  using assms by (induction pre) auto

lemma find_encoder_none:
  assumes "\<forall>x\<in>set ids. \<exists>e'. drmModeGetEncoder env fd x = Some e' \<and> encoder_id e' \<noteq> wanted"
  shows "find_encoder env fd ids wanted =
           Inr (None,
                concat (map (\<lambda>x. [GetEncoder fd x,
                                    FreeEncoder (the (drmModeGetEncoder env fd x))]) ids))"
  using assms by (induction ids) auto

lemma find_encoder_calls:
  "find_encoder env fd ids wanted = Inr (r, evs) \<Longrightarrow>
   (\<forall>f x. GetConnector f x \<notin> set evs) \<and> (\<forall>x. FreeConnector x \<notin> set evs)"
proof (induction ids arbitrary: r evs)
  case Nil
  then show ?case by simp
next
  case (Cons a ids)
  then show ?case
    by (auto split: option.splits if_splits sum.splits)
qed

lemma find_crtc_loop_calls:
  "find_crtc_loop env fd res ids = (r, evs) \<Longrightarrow>
   (\<forall>f x. GetConnector f x \<notin> set evs) \<and> (\<forall>x. FreeConnector x \<notin> set evs)"
proof (induction ids arbitrary: r evs)
  case Nil
  then show ?case by simp
next
  case (Cons a ids)
  then show ?case
    by (auto split: option.splits if_splits prod.splits)
qed

lemma find_crtc_from_bit:
  assumes "k < length cs" and "bit (possible_crtcs e) (i + k)"
    and "\<forall>j<k. \<not> bit (possible_crtcs e) (i + j)"
  shows "find_crtc_from i cs e = cs ! k"
  using assms
proof (induction cs arbitrary: i k)
  case Nil
  then show ?case by simp
next
  case (Cons c cs)
  show ?case
  proof (cases k)
    case 0
    with Cons.prems(2) show ?thesis
      by (simp add: bit_iff_and_push_bit_not_eq_0)
  next
    case (Suc k')
    with Cons.prems(3) have "\<not> bit (possible_crtcs e) (i + 0)" by blast
    then have no: "possible_crtcs e AND push_bit i 1 = 0"
      by (simp add: bit_iff_and_push_bit_not_eq_0)
    have "find_crtc_from (Suc i) cs e = cs ! k'"
    proof (rule Cons.IH)
      show "k' < length cs" using Cons.prems(1) Suc by simp
      show "bit (possible_crtcs e) (Suc i + k')" using Cons.prems(2) Suc by simp
      show "\<forall>j<k'. \<not> bit (possible_crtcs e) (Suc i + j)"
      proof (intro allI impI)
        fix j assume "j < k'"
        then have "Suc j < k" using Suc by simp
        with Cons.prems(3) have "\<not> bit (possible_crtcs e) (i + Suc j)" by blast
        then show "\<not> bit (possible_crtcs e) (Suc i + j)" by simp
      qed
    qed
    with no Suc show ?thesis by simp
  qed
qed

text \<open>
  The value for "no match found" is \<open>- 1\<close>, so the loop over the connector's encoders
  never returns 0.
\<close>

lemma find_crtc_from_no_bit:
  "\<forall>j<length cs. \<not> bit (possible_crtcs e) (i + j) \<Longrightarrow> find_crtc_from i cs e = - 1"
proof (induction cs arbitrary: i)
  case Nil
  then show ?case by simp
next
  case (Cons c cs)
  from Cons.prems have "\<not> bit (possible_crtcs e) (i + 0)" by (metis length_greater_0_conv list.distinct(1))
  then have no: "possible_crtcs e AND push_bit i 1 = 0"
    by (simp add: bit_iff_and_push_bit_not_eq_0)
  have "find_crtc_from (Suc i) cs e = - 1"
  proof (rule Cons.IH, intro allI impI)
    fix j assume "j < length cs"
    then have "Suc j < length (c # cs)" by simp
    with Cons.prems have "\<not> bit (possible_crtcs e) (i + Suc j)" by blast
    then show "\<not> bit (possible_crtcs e) (Suc i + j)" by simp
  qed
  with no show ?case by simp
qed

lemma find_crtc_loop_skip:
  assumes "\<forall>x\<in>set pre. drmModeGetEncoder env fd x = None
             \<or> (\<exists>e'. drmModeGetEncoder env fd x = Some e' \<and> find_crtc_for_encoder res e' = 0)"
    and "drmModeGetEncoder env fd eid = Some e" and "find_crtc_for_encoder res e \<noteq> 0"
  shows "fst (find_crtc_loop env fd res (pre @ eid # post)) = find_crtc_for_encoder res e"
  using assms by (induction pre) (auto split: prod.splits)

lemma find_crtc_loop_nonzero: "fst (find_crtc_loop env fd res ids) \<noteq> 0"
  by (induction ids) (auto split: option.splits prod.splits)

subsection \<open>The phases of Initialize\<close>

lemma Initialize_gbm_result:
  "Initialize_gbm env d evs =
     (gbm_create_device env (m_card_fd d) \<noteq> None,
      d\<lparr>m_gbm_device := gbm_create_device env (m_card_fd d)\<rparr>,
      evs @ [FreeResources, GbmCreateDevice (m_card_fd d)]
      @ (if gbm_create_device env (m_card_fd d) = None
         then [LogError ''gbm_create_device() failed: %d''] else []))"
  by (simp add: Initialize_gbm_def Let_def)

lemma Initialize_crtc_keeps:
  assumes "Initialize_crtc env res c d evs = Inr (ok, d', evs')"
  shows "m_connector d' = m_connector d \<and> m_mode d' = m_mode d
         \<and> (\<exists>rest. evs' = evs @ rest \<and> (\<forall>f x. GetConnector f x \<notin> set rest)
               \<and> (\<forall>x. FreeConnector x \<notin> set rest))"
proof (cases "find_encoder env (m_card_fd d) (res_encoders res) (connector_encoder_id c)")
  case (Inl f)
  with assms show ?thesis by (simp add: Initialize_crtc_def)
next
  case (Inr p)
  obtain r evs1 where p: "p = (r, evs1)" by (cases p)
  from find_encoder_calls [OF Inr [unfolded p]]
  have c1: "(\<forall>f x. GetConnector f x \<notin> set evs1) \<and> (\<forall>x. FreeConnector x \<notin> set evs1)" .
  show ?thesis
  proof (cases r)
    case (Some e)
    with assms Inr p c1 show ?thesis
      by (auto simp: Initialize_crtc_def Initialize_gbm_result)
  next
    case None
    obtain crtc evs2 where f: "find_crtc_for_connector env (m_card_fd d) res c = (crtc, evs2)"
      by (cases "find_crtc_for_connector env (m_card_fd d) res c")
    from find_crtc_loop_calls [OF f [unfolded find_crtc_for_connector_def]]
    have c2: "(\<forall>f x. GetConnector f x \<notin> set evs2) \<and> (\<forall>x. FreeConnector x \<notin> set evs2)" .
    from assms Inr p None f c1 c2 show ?thesis
      by (auto simp: Initialize_crtc_def Initialize_gbm_result split: if_splits)
  qed
qed

lemma Initialize_mode_empty:
  "m_mode d = None \<Longrightarrow> modes c = [] \<Longrightarrow>
   Initialize_mode env res c d evs =
     Inr (False, d, evs @ [LogError ''No mode found'', FreeResources])"
  by (simp add: Initialize_mode_def select_mode_end)

lemma Initialize_mode_selected:
  "m_mode d = None \<Longrightarrow> select_mode (modes c) 0 None = Some k \<Longrightarrow>
   Initialize_mode env res c d evs = Initialize_crtc env res c (d\<lparr>m_mode := Some k\<rparr>) evs"
  by (simp add: Initialize_mode_def)

lemma Initialize_mode_keeps:
  assumes "Initialize_mode env res c d evs = Inr (ok, d', evs')" and "m_mode d = None"
  shows "m_connector d' = m_connector d \<and> m_mode d' = select_mode (modes c) 0 None
         \<and> (\<exists>rest. evs' = evs @ rest \<and> (\<forall>f x. GetConnector f x \<notin> set rest)
               \<and> (\<forall>x. FreeConnector x \<notin> set rest))"
proof (cases "select_mode (modes c) 0 None")
  case None
  with assms show ?thesis by (auto simp: Initialize_mode_def)
next
  case (Some k)
  from assms(1) have "Initialize_crtc env res c (d\<lparr>m_mode := Some k\<rparr>) evs = Inr (ok, d', evs')"
    by (simp add: Initialize_mode_selected [OF assms(2) Some])
  from Initialize_crtc_keeps [OF this] Some show ?thesis by simp
qed

lemma Initialize_mode_connector:
  assumes "Initialize_mode env res c d evs = Inr (ok, d', evs')"
  shows "m_connector d' = m_connector d
         \<and> (\<exists>rest. evs' = evs @ rest \<and> (\<forall>f x. GetConnector f x \<notin> set rest)
               \<and> (\<forall>x. FreeConnector x \<notin> set rest))"
proof (cases "select_mode (modes c) 0 (m_mode d)")
  case None
  with assms show ?thesis by (auto simp: Initialize_mode_def)
next
  case (Some k)
  with assms have "Initialize_crtc env res c (d\<lparr>m_mode := Some k\<rparr>) evs = Inr (ok, d', evs')"
    by (simp add: Initialize_mode_def)
  from Initialize_crtc_keeps [OF this] show ?thesis by simp
qed

lemma Initialize_scanned:
  assumes "0 \<le> sys_open env (m_card_id d0)"
    and "drmModeGetResources env (sys_open env (m_card_id d0)) = Some res"
    and "m_connector d0 = None"
    and "scan_connectors env (sys_open env (m_card_id d0)) (connectors res) = Inr (r, sevs)"
  shows "Initialize env d0 =
     (case r of
        None \<Rightarrow> Inr (False, d0\<lparr>m_card_fd := sys_open env (m_card_id d0)\<rparr>,
                     [Open (m_card_id d0), GetResources (sys_open env (m_card_id d0))] @ sevs
                     @ [LogError ''No connector found'', FreeResources])
      | Some c \<Rightarrow>
          Initialize_mode env res c
            (d0\<lparr>m_card_fd := sys_open env (m_card_id d0), m_connector := Some c\<rparr>)
            ([Open (m_card_id d0), GetResources (sys_open env (m_card_id d0))] @ sevs))"
  using assms by (simp add: Initialize_def Let_def split: option.splits)

subsection \<open>Initialize on the example device\<close>

lemma DRMDisplay_ctor_2:
  "DRMDisplay_ctor 2 card_no =
     \<lparr>m_card_id = card_no, m_card_fd = - 1, m_crtc_id = 0, m_connector = None, m_mode = None,
      m_gbm_device = None, m_fb_surface = None,
      m_buffers = [\<lparr>bo = 0, width = 0, height = 0, stride = 0, format = 0, fb_id = 0\<rparr>,
                   \<lparr>bo = 0, width = 0, height = 0, stride = 0, format = 0, fb_id = 0\<rparr>],
      m_num_buffers = 0\<rparr>"
  by (simp add: DRMDisplay_ctor_def numeral_2_eq_2)

lemmas eval_defs =
  Initialize_def Initialize_mode_def Initialize_crtc_def Initialize_gbm_def
  find_crtc_for_connector_def find_crtc_for_encoder_def select_mode.simps preferred_def
  DRM_MODE_TYPE_PREFERRED_def mode_area_def DRMDisplay_ctor_2 device_env_def
  example_env_def example_resources_def example_connector_def example_encoder_def
  example_modes_def unplugged_connector_def initialized_display_def plain_modes_def
  Let_def

subsection \<open>Connector and mode selection\<close>

text \<open>
  C8. When the device opens and answers the resource query, and the object holds no
  connector: if the connectors before \<open>cid\<close> in the resource list are not connected
  and \<open>cid\<close> is, \<open>Initialize\<close> goes on to the mode loop with that connector in
  \<open>m_connector\<close>, having obtained and freed each connector before it, in order, and
  obtained no connector after it; whenever it returns, \<open>m_connector\<close> is that connector
  and no later call obtains or frees a connector. If no connector of the list is
  connected, \<open>Initialize\<close> returns false after logging "No connector found", every
  connector obtained has been freed, and \<open>m_connector\<close> is still null.
\<close>

theorem connector_selection:
  assumes "fd = sys_open env (m_card_id d0)" and "0 \<le> fd"
    and "drmModeGetResources env fd = Some res"
    and "m_connector d0 = None"
    and "\<forall>x\<in>set pre. \<exists>c'. drmModeGetConnector env fd x = Some c'
           \<and> connection c' \<noteq> DRM_MODE_CONNECTED"
  shows "(connectors res = pre @ cid # post \<and> drmModeGetConnector env fd cid = Some c
            \<and> connection c = DRM_MODE_CONNECTED \<longrightarrow>
          Initialize env d0 =
            Initialize_mode env res c (d0\<lparr>m_card_fd := fd, m_connector := Some c\<rparr>)
              ([Open (m_card_id d0), GetResources fd]
               @ concat (map (\<lambda>x. [GetConnector fd x,
                                     FreeConnector (the (drmModeGetConnector env fd x))]) pre)
               @ [GetConnector fd cid])
          \<and> (\<forall>ok d' evs. Initialize env d0 = Inr (ok, d', evs) \<longrightarrow>
                m_connector d' = Some c
                \<and> (\<exists>rest. evs =
                      [Open (m_card_id d0), GetResources fd]
                      @ concat (map (\<lambda>x. [GetConnector fd x,
                                   FreeConnector (the (drmModeGetConnector env fd x))]) pre)
                      @ GetConnector fd cid # rest
                      \<and> (\<forall>f x. GetConnector f x \<notin> set rest)
                      \<and> (\<forall>x. FreeConnector x \<notin> set rest))))
       \<and> (connectors res = pre \<longrightarrow>
            Initialize env d0 =
              Inr (False, d0\<lparr>m_card_fd := fd\<rparr>,
                   [Open (m_card_id d0), GetResources fd]
                   @ concat (map (\<lambda>x. [GetConnector fd x,
                                   FreeConnector (the (drmModeGetConnector env fd x))]) pre)
                   @ [LogError ''No connector found'', FreeResources]))"
proof (intro conjI impI)
  assume a: "connectors res = pre @ cid # post \<and> drmModeGetConnector env fd cid = Some c
            \<and> connection c = DRM_MODE_CONNECTED"
  let ?sevs = "concat (map (\<lambda>x. [GetConnector fd x,
                 FreeConnector (the (drmModeGetConnector env fd x))]) pre) @ [GetConnector fd cid]"
  from a assms(5) have s: "scan_connectors env fd (connectors res) = Inr (Some c, ?sevs)"
    by (simp add: scan_connectors_found)
  from Initialize_scanned [OF assms(2,3,4) [unfolded assms(1)] s [unfolded assms(1)]]
  show i: "Initialize env d0 =
            Initialize_mode env res c (d0\<lparr>m_card_fd := fd, m_connector := Some c\<rparr>)
              ([Open (m_card_id d0), GetResources fd] @ ?sevs)"
    by (simp add: assms(1))
  show "\<forall>ok d' evs. Initialize env d0 = Inr (ok, d', evs) \<longrightarrow>
                m_connector d' = Some c
                \<and> (\<exists>rest. evs =
                      [Open (m_card_id d0), GetResources fd]
                      @ concat (map (\<lambda>x. [GetConnector fd x,
                                   FreeConnector (the (drmModeGetConnector env fd x))]) pre)
                      @ GetConnector fd cid # rest
                      \<and> (\<forall>f x. GetConnector f x \<notin> set rest)
                      \<and> (\<forall>x. FreeConnector x \<notin> set rest))"
  proof (intro allI impI)
    fix ok d' evs
    assume b: "Initialize env d0 = Inr (ok, d', evs)"
    with i have "Initialize_mode env res c (d0\<lparr>m_card_fd := fd, m_connector := Some c\<rparr>)
              ([Open (m_card_id d0), GetResources fd] @ ?sevs) = Inr (ok, d', evs)"
      by simp
    from Initialize_mode_connector [OF this]
    show "m_connector d' = Some c
                \<and> (\<exists>rest. evs =
                      [Open (m_card_id d0), GetResources fd]
                      @ concat (map (\<lambda>x. [GetConnector fd x,
                                   FreeConnector (the (drmModeGetConnector env fd x))]) pre)
                      @ GetConnector fd cid # rest
                      \<and> (\<forall>f x. GetConnector f x \<notin> set rest)
                      \<and> (\<forall>x. FreeConnector x \<notin> set rest))"
      by auto
  qed
next
  assume a: "connectors res = pre"
  let ?sevs = "concat (map (\<lambda>x. [GetConnector fd x,
                 FreeConnector (the (drmModeGetConnector env fd x))]) pre)"
  from a assms(5) have s: "scan_connectors env fd (connectors res) = Inr (None, ?sevs)"
    by (simp add: scan_connectors_none)
  from Initialize_scanned [OF assms(2,3,4) [unfolded assms(1)] s [unfolded assms(1)]]
  show "Initialize env d0 =
              Inr (False, d0\<lparr>m_card_fd := fd\<rparr>,
                   [Open (m_card_id d0), GetResources fd] @ ?sevs
                   @ [LogError ''No connector found'', FreeResources])"
    by (simp add: assms(1))
qed

theorem connector_selection_witness:
  "Initialize example_env (DRMDisplay_ctor 2 0) =
     Inr (True, initialized_display,
          [Open 0, GetResources 3, GetConnector 3 6, FreeConnector unplugged_connector,
           GetConnector 3 7, GetEncoder 3 20, FreeEncoder example_encoder,
           FreeResources, GbmCreateDevice 3])
   \<and> m_connector initialized_display = Some example_connector
   \<and> Initialize (device_env (example_connector\<lparr>connection := DRM_MODE_UNKNOWNCONNECTION\<rparr>)
                   example_encoder) (DRMDisplay_ctor 2 0) =
     Inr (False, (DRMDisplay_ctor 2 0)\<lparr>m_card_fd := 3\<rparr>,
          [Open 0, GetResources 3, GetConnector 3 6, FreeConnector unplugged_connector,
           GetConnector 3 7,
           FreeConnector (example_connector\<lparr>connection := DRM_MODE_UNKNOWNCONNECTION\<rparr>),
           LogError ''No connector found'', FreeResources])"
proof -
  have 1: "Initialize example_env (DRMDisplay_ctor 2 0) =
            Initialize_mode example_env example_resources example_connector
              ((DRMDisplay_ctor 2 0)\<lparr>m_card_fd := 3, m_connector := Some example_connector\<rparr>)
              ([Open (m_card_id (DRMDisplay_ctor 2 0)), GetResources 3]
               @ concat (map (\<lambda>x. [GetConnector 3 x,
                     FreeConnector (the (drmModeGetConnector example_env 3 x))]) [6])
               @ [GetConnector 3 7])"
    using connector_selection [of 3 example_env "DRMDisplay_ctor 2 0" example_resources
        "[6]" 7 "[]" example_connector]
    by (simp add: example_env_def device_env_def DRMDisplay_ctor_2 example_resources_def
        unplugged_connector_def example_connector_def)
  have 2: "Initialize (device_env (example_connector\<lparr>connection := DRM_MODE_UNKNOWNCONNECTION\<rparr>)
                   example_encoder) (DRMDisplay_ctor 2 0) =
     Inr (False, (DRMDisplay_ctor 2 0)\<lparr>m_card_fd := 3\<rparr>,
          [Open 0, GetResources 3, GetConnector 3 6, FreeConnector unplugged_connector,
           GetConnector 3 7,
           FreeConnector (example_connector\<lparr>connection := DRM_MODE_UNKNOWNCONNECTION\<rparr>),
           LogError ''No connector found'', FreeResources])"
    using connector_selection [of 3
        "device_env (example_connector\<lparr>connection := DRM_MODE_UNKNOWNCONNECTION\<rparr>) example_encoder"
        "DRMDisplay_ctor 2 0" example_resources "[6, 7]" 0 "[]" example_connector]
    by (simp add: device_env_def DRMDisplay_ctor_2 example_resources_def
        unplugged_connector_def example_connector_def)
  from 1 have "Initialize example_env (DRMDisplay_ctor 2 0) =
     Inr (True, initialized_display,
          [Open 0, GetResources 3, GetConnector 3 6, FreeConnector unplugged_connector,
           GetConnector 3 7, GetEncoder 3 20, FreeEncoder example_encoder,
           FreeResources, GbmCreateDevice 3])"
    by (simp add: eval_defs)
  with 2 show ?thesis by (simp add: initialized_display_def)
qed

text \<open>
  The mode loop where the areas are within \<open>int\<close>. For an object whose \<open>m_mode\<close>
  is null: with an empty mode list \<open>Initialize\<close> logs "No mode found" and returns
  false; with a non-empty list a mode is selected and \<open>Initialize\<close> goes on with it.
  The mode selected is the first one flagged preferred; when none is flagged, it is a
  mode of the largest area \<open>hdisplay * vdisplay\<close> and the first of that area, provided
  every area is below \<open>2^31\<close>. The last part states the same for \<open>Initialize\<close> as a
  whole, once the connector loop has selected \<open>c\<close>.
\<close>

theorem mode_selection:
  assumes "m_mode d = None"
  shows "(modes c = [] \<longrightarrow>
            Initialize_mode env res c d evs =
              Inr (False, d, evs @ [LogError ''No mode found'', FreeResources]))
       \<and> (modes c \<noteq> [] \<longrightarrow>
            (\<exists>k<length (modes c). select_mode (modes c) 0 None = Some k
               \<and> Initialize_mode env res c d evs =
                   Initialize_crtc env res c (d\<lparr>m_mode := Some k\<rparr>) evs))
       \<and> (\<forall>k<length (modes c).
             preferred (modes c ! k) \<and> (\<forall>j<k. \<not> preferred (modes c ! j)) \<longrightarrow>
             select_mode (modes c) 0 None = Some k)
       \<and> ((\<forall>m\<in>set (modes c). \<not> preferred m
               \<and> unat (hdisplay m) * unat (vdisplay m) < 2 ^ 31) \<longrightarrow>
            (\<forall>k. select_mode (modes c) 0 None = Some k \<longrightarrow>
               k < length (modes c)
               \<and> (\<forall>j<length (modes c).
                     unat (hdisplay (modes c ! j)) * unat (vdisplay (modes c ! j))
                     \<le> unat (hdisplay (modes c ! k)) * unat (vdisplay (modes c ! k)))
               \<and> (\<forall>j<k. unat (hdisplay (modes c ! j)) * unat (vdisplay (modes c ! j))
                          < unat (hdisplay (modes c ! k)) * unat (vdisplay (modes c ! k)))))
       \<and> (0 \<le> sys_open env (m_card_id d)
            \<and> drmModeGetResources env (sys_open env (m_card_id d)) = Some res
            \<and> m_connector d = None
            \<and> scan_connectors env (sys_open env (m_card_id d)) (connectors res)
                = Inr (Some c, sevs) \<longrightarrow>
            (modes c = [] \<longrightarrow>
               Initialize env d =
                 Inr (False, d\<lparr>m_card_fd := sys_open env (m_card_id d), m_connector := Some c\<rparr>,
                      [Open (m_card_id d), GetResources (sys_open env (m_card_id d))] @ sevs
                      @ [LogError ''No mode found'', FreeResources]))
            \<and> (\<forall>ok d' evs'. Initialize env d = Inr (ok, d', evs') \<longrightarrow>
                  m_connector d' = Some c \<and> m_mode d' = select_mode (modes c) 0 None))"
proof (intro conjI)
  show "modes c = [] \<longrightarrow>
            Initialize_mode env res c d evs =
              Inr (False, d, evs @ [LogError ''No mode found'', FreeResources])"
    using assms by (simp add: Initialize_mode_empty)
  show "modes c \<noteq> [] \<longrightarrow>
            (\<exists>k<length (modes c). select_mode (modes c) 0 None = Some k
               \<and> Initialize_mode env res c d evs =
                   Initialize_crtc env res c (d\<lparr>m_mode := Some k\<rparr>) evs)"
  proof
    assume "modes c \<noteq> []"
    from select_mode_nonempty [OF this] obtain k where
      k: "k < length (modes c)" "select_mode (modes c) 0 None = Some k" by blast
    from Initialize_mode_selected [OF assms k(2)] k
    show "\<exists>k<length (modes c). select_mode (modes c) 0 None = Some k
               \<and> Initialize_mode env res c d evs =
                   Initialize_crtc env res c (d\<lparr>m_mode := Some k\<rparr>) evs"
      by blast
  qed
  show "\<forall>k<length (modes c).
             preferred (modes c ! k) \<and> (\<forall>j<k. \<not> preferred (modes c ! j)) \<longrightarrow>
             select_mode (modes c) 0 None = Some k"
    by (intro allI impI select_mode_preferred) simp_all
  show "(\<forall>m\<in>set (modes c). \<not> preferred m
               \<and> unat (hdisplay m) * unat (vdisplay m) < 2 ^ 31) \<longrightarrow>
            (\<forall>k. select_mode (modes c) 0 None = Some k \<longrightarrow>
               k < length (modes c)
               \<and> (\<forall>j<length (modes c).
                     unat (hdisplay (modes c ! j)) * unat (vdisplay (modes c ! j))
                     \<le> unat (hdisplay (modes c ! k)) * unat (vdisplay (modes c ! k)))
               \<and> (\<forall>j<k. unat (hdisplay (modes c ! j)) * unat (vdisplay (modes c ! j))
                          < unat (hdisplay (modes c ! k)) * unat (vdisplay (modes c ! k))))"
  proof (intro impI allI)
    fix k
    assume a: "\<forall>m\<in>set (modes c). \<not> preferred m
               \<and> unat (hdisplay m) * unat (vdisplay m) < 2 ^ 31"
      and s: "select_mode (modes c) 0 None = Some k"
    have ne: "modes c \<noteq> []"
    proof
      assume "modes c = []"
      then have "select_mode (modes c) 0 None = None" by (simp add: select_mode_end)
      with s show False by simp
    qed
    from a have np: "\<forall>m\<in>set (modes c). \<not> preferred m" by blast
    from select_mode_no_preferred [OF ne np] s
    have f: "first_largest (modes c) (length (modes c)) k" by simp
    have ar: "mode_area (modes c ! j) =
                int (unat (hdisplay (modes c ! j)) * unat (vdisplay (modes c ! j)))"
      if "j < length (modes c)" for j
    proof (rule mode_area_exact)
      from that have "modes c ! j \<in> set (modes c)" by (rule nth_mem)
      with a show "unat (hdisplay (modes c ! j)) * unat (vdisplay (modes c ! j)) < 2 ^ 31"
        by blast
    qed
    from f have k: "k < length (modes c)" by (simp add: first_largest_iff)
    have le: "unat (hdisplay (modes c ! j)) * unat (vdisplay (modes c ! j))
                     \<le> unat (hdisplay (modes c ! k)) * unat (vdisplay (modes c ! k))"
      if "j < length (modes c)" for j
    proof -
      from f that have "mode_area (modes c ! j) \<le> mode_area (modes c ! k)"
        by (simp add: first_largest_iff)
      then show ?thesis by (simp only: ar [OF that] ar [OF k] of_nat_le_iff)
    qed
    have lt: "unat (hdisplay (modes c ! j)) * unat (vdisplay (modes c ! j))
                     < unat (hdisplay (modes c ! k)) * unat (vdisplay (modes c ! k))"
      if "j < k" for j
    proof -
      from that k have j: "j < length (modes c)" by simp
      from f that have "mode_area (modes c ! j) < mode_area (modes c ! k)"
        by (simp add: first_largest_iff)
      then show ?thesis by (simp only: ar [OF j] ar [OF k] of_nat_less_iff)
    qed
    from k le lt
    show "k < length (modes c)
               \<and> (\<forall>j<length (modes c).
                     unat (hdisplay (modes c ! j)) * unat (vdisplay (modes c ! j))
                     \<le> unat (hdisplay (modes c ! k)) * unat (vdisplay (modes c ! k)))
               \<and> (\<forall>j<k. unat (hdisplay (modes c ! j)) * unat (vdisplay (modes c ! j))
                          < unat (hdisplay (modes c ! k)) * unat (vdisplay (modes c ! k)))"
      by blast
  qed
  show "0 \<le> sys_open env (m_card_id d)
            \<and> drmModeGetResources env (sys_open env (m_card_id d)) = Some res
            \<and> m_connector d = None
            \<and> scan_connectors env (sys_open env (m_card_id d)) (connectors res)
                = Inr (Some c, sevs) \<longrightarrow>
            (modes c = [] \<longrightarrow>
               Initialize env d =
                 Inr (False, d\<lparr>m_card_fd := sys_open env (m_card_id d), m_connector := Some c\<rparr>,
                      [Open (m_card_id d), GetResources (sys_open env (m_card_id d))] @ sevs
                      @ [LogError ''No mode found'', FreeResources]))
            \<and> (\<forall>ok d' evs'. Initialize env d = Inr (ok, d', evs') \<longrightarrow>
                  m_connector d' = Some c \<and> m_mode d' = select_mode (modes c) 0 None)"
  proof
    assume a: "0 \<le> sys_open env (m_card_id d)
            \<and> drmModeGetResources env (sys_open env (m_card_id d)) = Some res
            \<and> m_connector d = None
            \<and> scan_connectors env (sys_open env (m_card_id d)) (connectors res)
                = Inr (Some c, sevs)"
    let ?d = "d\<lparr>m_card_fd := sys_open env (m_card_id d), m_connector := Some c\<rparr>"
    let ?evs = "[Open (m_card_id d), GetResources (sys_open env (m_card_id d))] @ sevs"
    from a have "Initialize env d =
        (case Some c of
           None \<Rightarrow> Inr (False, d\<lparr>m_card_fd := sys_open env (m_card_id d)\<rparr>,
                     [Open (m_card_id d), GetResources (sys_open env (m_card_id d))] @ sevs
                     @ [LogError ''No connector found'', FreeResources])
         | Some c \<Rightarrow> Initialize_mode env res c
            (d\<lparr>m_card_fd := sys_open env (m_card_id d), m_connector := Some c\<rparr>)
            ([Open (m_card_id d), GetResources (sys_open env (m_card_id d))] @ sevs))"
      by (intro Initialize_scanned) simp_all
    then have i: "Initialize env d = Initialize_mode env res c ?d ?evs" by simp
    have m: "m_mode ?d = None" using assms by simp
    show "(modes c = [] \<longrightarrow>
               Initialize env d =
                 Inr (False, ?d,
                      [Open (m_card_id d), GetResources (sys_open env (m_card_id d))] @ sevs
                      @ [LogError ''No mode found'', FreeResources]))
            \<and> (\<forall>ok d' evs'. Initialize env d = Inr (ok, d', evs') \<longrightarrow>
                  m_connector d' = Some c \<and> m_mode d' = select_mode (modes c) 0 None)"
    proof (intro conjI impI allI)
      assume "modes c = []"
      from Initialize_mode_empty [OF m this] i
      show "Initialize env d =
              Inr (False, ?d,
                   [Open (m_card_id d), GetResources (sys_open env (m_card_id d))] @ sevs
                   @ [LogError ''No mode found'', FreeResources])"
        by simp
    next
      fix ok d' evs'
      assume "Initialize env d = Inr (ok, d', evs')"
      with i have "Initialize_mode env res c ?d ?evs = Inr (ok, d', evs')" by simp
      from Initialize_mode_keeps [OF this m]
      show "m_connector d' = Some c" "m_mode d' = select_mode (modes c) 0 None"
        by simp_all
    qed
  qed
qed

theorem mode_selection_witness:
  "select_mode example_modes 0 None = Some 0
   \<and> select_mode plain_modes 0 None = Some 1
   \<and> unat (hdisplay (plain_modes ! 0)) * unat (vdisplay (plain_modes ! 0))
       < unat (hdisplay (plain_modes ! 1)) * unat (vdisplay (plain_modes ! 1))
   \<and> unat (hdisplay (plain_modes ! 2)) * unat (vdisplay (plain_modes ! 2))
       \<le> unat (hdisplay (plain_modes ! 1)) * unat (vdisplay (plain_modes ! 1))
   \<and> Initialize_mode example_env example_resources (example_connector\<lparr>modes := []\<rparr>)
        (DRMDisplay_ctor 2 0) [] =
      Inr (False, DRMDisplay_ctor 2 0, [LogError ''No mode found'', FreeResources])
   \<and> Initialize (device_env (example_connector\<lparr>modes := []\<rparr>) example_encoder)
        (DRMDisplay_ctor 2 0) =
      Inr (False,
           (DRMDisplay_ctor 2 0)\<lparr>m_card_fd := 3,
              m_connector := Some (example_connector\<lparr>modes := []\<rparr>)\<rparr>,
           [Open 0, GetResources 3, GetConnector 3 6, FreeConnector unplugged_connector,
            GetConnector 3 7, LogError ''No mode found'', FreeResources])"
proof -
  have m: "m_mode (DRMDisplay_ctor 2 0) = None" by (simp add: DRMDisplay_ctor_2)
  note pref = mode_selection [OF m, of example_connector example_env example_resources "[]" "[]",
      THEN conjunct2, THEN conjunct2, THEN conjunct1, rule_format, of 0]
  have 1: "select_mode example_modes 0 None = Some 0"
    using pref
    by (simp add: example_connector_def example_modes_def preferred_def
        DRM_MODE_TYPE_PREFERRED_def)
  have sel: "select_mode plain_modes 0 None = Some 1"
    by (simp add: select_mode.simps plain_modes_def preferred_def DRM_MODE_TYPE_PREFERRED_def
        mode_area_def)
  have h: "\<forall>m\<in>set (modes (example_connector\<lparr>modes := plain_modes\<rparr>)).
             \<not> preferred m \<and> unat (hdisplay m) * unat (vdisplay m) < 2 ^ 31"
    by (simp add: plain_modes_def preferred_def DRM_MODE_TYPE_PREFERRED_def)
  note largest = mode_selection [OF m, of "example_connector\<lparr>modes := plain_modes\<rparr>"
      example_env example_resources "[]" "[]",
      THEN conjunct2, THEN conjunct2, THEN conjunct2, THEN conjunct1, THEN mp, OF h,
      rule_format, of 1]
  from largest sel have l: "(\<forall>j<length plain_modes.
         unat (hdisplay (plain_modes ! j)) * unat (vdisplay (plain_modes ! j))
         \<le> unat (hdisplay (plain_modes ! 1)) * unat (vdisplay (plain_modes ! 1)))
      \<and> (\<forall>j<1. unat (hdisplay (plain_modes ! j)) * unat (vdisplay (plain_modes ! j))
                < unat (hdisplay (plain_modes ! 1)) * unat (vdisplay (plain_modes ! 1)))"
    by simp
  have len: "length plain_modes = 3" by (simp add: plain_modes_def)
  from l len have 2: "unat (hdisplay (plain_modes ! 0)) * unat (vdisplay (plain_modes ! 0))
       < unat (hdisplay (plain_modes ! 1)) * unat (vdisplay (plain_modes ! 1))"
    by blast
  from l len have 3: "unat (hdisplay (plain_modes ! 2)) * unat (vdisplay (plain_modes ! 2))
       \<le> unat (hdisplay (plain_modes ! 1)) * unat (vdisplay (plain_modes ! 1))"
    by simp
  have 4: "Initialize_mode example_env example_resources (example_connector\<lparr>modes := []\<rparr>)
        (DRMDisplay_ctor 2 0) [] =
      Inr (False, DRMDisplay_ctor 2 0, [LogError ''No mode found'', FreeResources])"
    using mode_selection [OF m, of "example_connector\<lparr>modes := []\<rparr>"
        example_env example_resources "[]" "[]", THEN conjunct1]
    by simp
  note init = mode_selection [OF m, of "example_connector\<lparr>modes := []\<rparr>"
        "device_env (example_connector\<lparr>modes := []\<rparr>) example_encoder" example_resources "[]"
        "[GetConnector 3 6, FreeConnector unplugged_connector, GetConnector 3 7]",
        THEN conjunct2, THEN conjunct2, THEN conjunct2, THEN conjunct2, THEN mp,
        THEN conjunct1, THEN mp]
  have 5: "Initialize (device_env (example_connector\<lparr>modes := []\<rparr>) example_encoder)
        (DRMDisplay_ctor 2 0) =
      Inr (False,
           (DRMDisplay_ctor 2 0)\<lparr>m_card_fd := 3,
              m_connector := Some (example_connector\<lparr>modes := []\<rparr>)\<rparr>,
           [Open 0, GetResources 3, GetConnector 3 6, FreeConnector unplugged_connector,
            GetConnector 3 7, LogError ''No mode found'', FreeResources])"
    using init
    by (simp add: device_env_def DRMDisplay_ctor_2 example_resources_def
        unplugged_connector_def example_connector_def)
  from 1 sel 2 3 4 5 show ?thesis by simp
qed

text \<open>
  C4. The code multiplies \<open>hdisplay\<close> and \<open>vdisplay\<close> in \<open>int\<close>, and an area of
  \<open>2^31\<close> or more overflows. With the modes 65535x65535 and 1x1, none flagged preferred,
  the first has the larger area, but its product is \<open>-131071\<close> in the code, the test
  \<open>1 > -131071\<close> succeeds, and the mode loop ends with the 1x1 mode: \<open>Initialize\<close>
  returns true with \<open>m_mode\<close> at the second mode. The same happens with 46341x46341,
  the smallest square whose area overflows.
\<close>

theorem largest_mode_overflow:
  "unat (hdisplay (huge_modes ! 1)) * unat (vdisplay (huge_modes ! 1))
     < unat (hdisplay (huge_modes ! 0)) * unat (vdisplay (huge_modes ! 0))
   \<and> mode_area (huge_modes ! 0) = - 131071
   \<and> mode_area (huge_modes ! 1) = 1
   \<and> select_mode huge_modes 0 None = Some 1
   \<and> select_mode [\<lparr>hdisplay = 46341, vdisplay = 46341, type = 64\<rparr>,
                   \<lparr>hdisplay = 1, vdisplay = 1, type = 64\<rparr>] 0 None = Some 1
   \<and> Initialize (device_env (example_connector\<lparr>modes := huge_modes\<rparr>) example_encoder)
       (DRMDisplay_ctor 2 0) =
     Inr (True,
          initialized_display
            \<lparr>m_connector := Some (example_connector\<lparr>modes := huge_modes\<rparr>),
             m_mode := Some 1\<rparr>,
          [Open 0, GetResources 3, GetConnector 3 6, FreeConnector unplugged_connector,
           GetConnector 3 7, GetEncoder 3 20, FreeEncoder example_encoder,
           FreeResources, GbmCreateDevice 3])"
  by (simp add: eval_defs huge_modes_def)

subsection \<open>Controller resolution\<close>

text \<open>
  C2, as amended. Lines 141 to 168, for an object whose descriptor is \<open>fd\<close>. When the
  first encoder of the resource list whose id is the connector's \<open>encoder_id\<close> is
  \<open>e\<close>, \<open>m_crtc_id\<close> becomes \<open>crtc_id e\<close>, whatever that id is (also 0), the calls
  are those of the encoder loop and of the GBM device, so \<open>find_crtc_for_connector\<close>
  is not run, and the result depends on \<open>gbm_create_device\<close> only. When no encoder of
  the resource list has that id, the connector's encoders are tried in order; those that
  the kernel does not return, and those for which \<open>find_crtc_for_encoder\<close> gives 0,
  are passed over, and for the next one, if bit \<open>k\<close> is the lowest bit set in its
  \<open>possible_crtcs\<close>, \<open>k\<close> is a position of the CRTC list and the id there is not 0,
  \<open>m_crtc_id\<close> becomes that id.
\<close>

theorem controller_resolution:
  assumes "fd = m_card_fd d"
  shows "(res_encoders res = pre @ eid # post
          \<and> (\<forall>x\<in>set pre. \<exists>e'. drmModeGetEncoder env fd x = Some e'
                 \<and> encoder_id e' \<noteq> connector_encoder_id c)
          \<and> drmModeGetEncoder env fd eid = Some e
          \<and> encoder_id e = connector_encoder_id c \<longrightarrow>
          Initialize_crtc env res c d evs =
            Inr (gbm_create_device env fd \<noteq> None,
                 d\<lparr>m_crtc_id := crtc_id e, m_gbm_device := gbm_create_device env fd\<rparr>,
                 evs
                 @ concat (map (\<lambda>x. [GetEncoder fd x,
                                       FreeEncoder (the (drmModeGetEncoder env fd x))]) pre)
                 @ [GetEncoder fd eid, FreeEncoder e, FreeResources, GbmCreateDevice fd]
                 @ (if gbm_create_device env fd = None
                    then [LogError ''gbm_create_device() failed: %d''] else [])))
       \<and> ((\<forall>x\<in>set (res_encoders res). \<exists>e'. drmModeGetEncoder env fd x = Some e'
                 \<and> encoder_id e' \<noteq> connector_encoder_id c)
          \<and> encoders c = pre @ eid # post
          \<and> (\<forall>x\<in>set pre. drmModeGetEncoder env fd x = None
                 \<or> (\<exists>e'. drmModeGetEncoder env fd x = Some e'
                       \<and> find_crtc_for_encoder res e' = 0))
          \<and> drmModeGetEncoder env fd eid = Some e
          \<and> k < length (crtcs res) \<and> bit (possible_crtcs e) k
          \<and> (\<forall>j<k. \<not> bit (possible_crtcs e) j) \<and> crtcs res ! k \<noteq> 0 \<longrightarrow>
          (\<exists>evs'. Initialize_crtc env res c d evs =
             Inr (gbm_create_device env fd \<noteq> None,
                  d\<lparr>m_crtc_id := crtcs res ! k, m_gbm_device := gbm_create_device env fd\<rparr>,
                  evs')))"
proof (intro conjI impI)
  assume a: "res_encoders res = pre @ eid # post
          \<and> (\<forall>x\<in>set pre. \<exists>e'. drmModeGetEncoder env fd x = Some e'
                 \<and> encoder_id e' \<noteq> connector_encoder_id c)
          \<and> drmModeGetEncoder env fd eid = Some e
          \<and> encoder_id e = connector_encoder_id c"
  then have "find_encoder env fd (res_encoders res) (connector_encoder_id c) =
      Inr (Some e,
           concat (map (\<lambda>x. [GetEncoder fd x,
                                FreeEncoder (the (drmModeGetEncoder env fd x))]) pre)
           @ [GetEncoder fd eid])"
    by (simp add: find_encoder_found)
  then show "Initialize_crtc env res c d evs =
            Inr (gbm_create_device env fd \<noteq> None,
                 d\<lparr>m_crtc_id := crtc_id e, m_gbm_device := gbm_create_device env fd\<rparr>,
                 evs
                 @ concat (map (\<lambda>x. [GetEncoder fd x,
                                       FreeEncoder (the (drmModeGetEncoder env fd x))]) pre)
                 @ [GetEncoder fd eid, FreeEncoder e, FreeResources, GbmCreateDevice fd]
                 @ (if gbm_create_device env fd = None
                    then [LogError ''gbm_create_device() failed: %d''] else []))"
    by (simp add: Initialize_crtc_def Initialize_gbm_result assms [symmetric])
next
  assume a: "(\<forall>x\<in>set (res_encoders res). \<exists>e'. drmModeGetEncoder env fd x = Some e'
                 \<and> encoder_id e' \<noteq> connector_encoder_id c)
          \<and> encoders c = pre @ eid # post
          \<and> (\<forall>x\<in>set pre. drmModeGetEncoder env fd x = None
                 \<or> (\<exists>e'. drmModeGetEncoder env fd x = Some e'
                       \<and> find_crtc_for_encoder res e' = 0))
          \<and> drmModeGetEncoder env fd eid = Some e
          \<and> k < length (crtcs res) \<and> bit (possible_crtcs e) k
          \<and> (\<forall>j<k. \<not> bit (possible_crtcs e) j) \<and> crtcs res ! k \<noteq> 0"
  then have fe: "find_encoder env fd (res_encoders res) (connector_encoder_id c) =
      Inr (None, concat (map (\<lambda>x. [GetEncoder fd x,
                                FreeEncoder (the (drmModeGetEncoder env fd x))]) (res_encoders res)))"
    by (intro find_encoder_none) simp
  from a have "find_crtc_from 0 (crtcs res) e = crtcs res ! k"
    by (intro find_crtc_from_bit) simp_all
  then have fc: "find_crtc_for_encoder res e = crtcs res ! k"
    by (simp add: find_crtc_for_encoder_def)
  with a have nz: "find_crtc_for_encoder res e \<noteq> 0" by simp
  from a have skip: "\<forall>x\<in>set pre. drmModeGetEncoder env fd x = None
             \<or> (\<exists>e'. drmModeGetEncoder env fd x = Some e' \<and> find_crtc_for_encoder res e' = 0)"
    and ge: "drmModeGetEncoder env fd eid = Some e" and enc: "encoders c = pre @ eid # post"
    by simp_all
  from find_crtc_loop_skip [OF skip ge nz, of post] enc fc
  have "fst (find_crtc_for_connector env fd res c) = crtcs res ! k"
    by (simp add: find_crtc_for_connector_def)
  then obtain evs2 where "find_crtc_for_connector env fd res c = (crtcs res ! k, evs2)"
    by (cases "find_crtc_for_connector env fd res c") simp
  with fe a show "\<exists>evs'. Initialize_crtc env res c d evs =
             Inr (gbm_create_device env fd \<noteq> None,
                  d\<lparr>m_crtc_id := crtcs res ! k, m_gbm_device := gbm_create_device env fd\<rparr>,
                  evs')"
    by (simp add: Initialize_crtc_def Initialize_gbm_result assms [symmetric])
qed

theorem controller_resolution_witness:
  "Initialize_crtc example_env example_resources example_connector
     (initialized_display\<lparr>m_crtc_id := 0, m_gbm_device := None\<rparr>) [] =
     Inr (True, initialized_display,
          [GetEncoder 3 20, FreeEncoder example_encoder, FreeResources, GbmCreateDevice 3])
   \<and> Initialize_crtc (device_env example_connector (example_encoder\<lparr>crtc_id := 0\<rparr>))
       example_resources example_connector
       (initialized_display\<lparr>m_crtc_id := 0, m_gbm_device := None\<rparr>) [] =
     Inr (True, initialized_display\<lparr>m_crtc_id := 0\<rparr>,
          [GetEncoder 3 20, FreeEncoder (example_encoder\<lparr>crtc_id := 0\<rparr>),
           FreeResources, GbmCreateDevice 3])
   \<and> (\<exists>evs'. Initialize_crtc
         (device_env (example_connector\<lparr>connector_encoder_id := 0\<rparr>)
            (example_encoder\<lparr>crtc_id := 0, possible_crtcs := 2\<rparr>))
         example_resources (example_connector\<lparr>connector_encoder_id := 0\<rparr>)
         (initialized_display\<lparr>m_crtc_id := 0, m_gbm_device := None\<rparr>) [] =
       Inr (True, initialized_display\<lparr>m_crtc_id := 41\<rparr>, evs'))"
proof -
  let ?d = "initialized_display\<lparr>m_crtc_id := 0, m_gbm_device := None\<rparr>"
  have fd: "3 = m_card_fd ?d" by (simp add: initialized_display_def)
  have 1: "Initialize_crtc example_env example_resources example_connector ?d [] =
     Inr (True, initialized_display,
          [GetEncoder 3 20, FreeEncoder example_encoder, FreeResources, GbmCreateDevice 3])"
    using controller_resolution [OF fd, where res = example_resources and pre = "[]"
        and eid = 20 and post = "[]" and env = example_env and c = example_connector
        and e = example_encoder and evs = "[]", THEN conjunct1]
    by (simp add: example_env_def device_env_def example_resources_def example_connector_def
        example_encoder_def initialized_display_def)
  have 2: "Initialize_crtc (device_env example_connector (example_encoder\<lparr>crtc_id := 0\<rparr>))
       example_resources example_connector ?d [] =
     Inr (True, initialized_display\<lparr>m_crtc_id := 0\<rparr>,
          [GetEncoder 3 20, FreeEncoder (example_encoder\<lparr>crtc_id := 0\<rparr>),
           FreeResources, GbmCreateDevice 3])"
    using controller_resolution [OF fd, where res = example_resources and pre = "[]"
        and eid = 20 and post = "[]"
        and env = "device_env example_connector (example_encoder\<lparr>crtc_id := 0\<rparr>)"
        and c = example_connector and e = "example_encoder\<lparr>crtc_id := 0\<rparr>"
        and evs = "[]", THEN conjunct1]
    by (simp add: device_env_def example_resources_def example_connector_def
        example_encoder_def initialized_display_def)
  have 3: "\<exists>evs'. Initialize_crtc
         (device_env (example_connector\<lparr>connector_encoder_id := 0\<rparr>)
            (example_encoder\<lparr>crtc_id := 0, possible_crtcs := 2\<rparr>))
         example_resources (example_connector\<lparr>connector_encoder_id := 0\<rparr>) ?d [] =
       Inr (True, initialized_display\<lparr>m_crtc_id := 41\<rparr>, evs')"
    using controller_resolution [OF fd, where res = example_resources and pre = "[]"
        and eid = 20 and post = "[]"
        and env = "device_env (example_connector\<lparr>connector_encoder_id := 0\<rparr>)
            (example_encoder\<lparr>crtc_id := 0, possible_crtcs := 2\<rparr>)"
        and c = "example_connector\<lparr>connector_encoder_id := 0\<rparr>"
        and e = "example_encoder\<lparr>crtc_id := 0, possible_crtcs := 2\<rparr>"
        and k = 1 and evs = "[]", THEN conjunct2]
    by (simp add: device_env_def example_resources_def example_connector_def
        example_encoder_def initialized_display_def)
  from 1 2 3 show ?thesis by simp
qed

text \<open>
  C2 as stated fails: encoder 20 has the connector's \<open>encoder_id\<close> and names no CRTC
  (\<open>crtc_id = 0\<close>); \<open>Initialize\<close> succeeds with \<open>m_crtc_id = 0\<close> and makes no call
  of the bitmask scan, although the scan would give CRTC 40.
\<close>

theorem controller_resolution_counterexample:
  "encoder_id (example_encoder\<lparr>crtc_id := 0\<rparr>) = connector_encoder_id example_connector
   \<and> crtc_id (example_encoder\<lparr>crtc_id := 0\<rparr>) = 0
   \<and> Initialize (device_env example_connector (example_encoder\<lparr>crtc_id := 0\<rparr>))
     (DRMDisplay_ctor 2 0) =
   Inr (True, initialized_display\<lparr>m_crtc_id := 0\<rparr>,
        [Open 0, GetResources 3, GetConnector 3 6, FreeConnector unplugged_connector,
         GetConnector 3 7, GetEncoder 3 20, FreeEncoder (example_encoder\<lparr>crtc_id := 0\<rparr>),
         FreeResources, GbmCreateDevice 3])
   \<and> find_crtc_for_connector (device_env example_connector (example_encoder\<lparr>crtc_id := 0\<rparr>))
       3 example_resources example_connector =
     (40, [GetEncoder 3 20, FreeEncoder (example_encoder\<lparr>crtc_id := 0\<rparr>)])"
  by (simp add: eval_defs)

text \<open>
  C1. The connector has no current encoder (\<open>encoder_id = 0\<close>, which is no encoder of the
  resource list) and its only encoder has an empty \<open>possible_crtcs\<close>. The scan returns
  \<open>-1\<close>, that is \<open>0xFFFFFFFF\<close>, which the test \<open>m_crtc_id == 0\<close> does not catch:
  \<open>Initialize\<close> returns true with \<open>m_crtc_id = 0xFFFFFFFF\<close> and never logs
  "No CRTC found".
\<close>

theorem no_controller_not_detected:
  "Initialize (device_env (example_connector\<lparr>connector_encoder_id := 0\<rparr>)
                 (example_encoder\<lparr>crtc_id := 0, possible_crtcs := 0\<rparr>))
     (DRMDisplay_ctor 2 0) =
   Inr (True,
        initialized_display
          \<lparr>m_crtc_id := - 1,
           m_connector := Some (example_connector\<lparr>connector_encoder_id := 0\<rparr>)\<rparr>,
        [Open 0, GetResources 3, GetConnector 3 6, FreeConnector unplugged_connector,
         GetConnector 3 7,
         GetEncoder 3 20, FreeEncoder (example_encoder\<lparr>crtc_id := 0, possible_crtcs := 0\<rparr>),
         GetEncoder 3 20, FreeEncoder (example_encoder\<lparr>crtc_id := 0, possible_crtcs := 0\<rparr>),
         FreeResources, GbmCreateDevice 3])"
  by (simp add: eval_defs)

subsection \<open>Errors of one frame\<close>

text \<open>
  C3, as amended. A failed \<open>drmModeAddFB2\<close> in \<open>LockFrontBuffer\<close> is logged and
  reported: the null pointer is returned; the object differs from before in the untracked
  slot of the array only. A failed \<open>drmModeSetCrtc\<close> in the immediate
  \<open>PresentSurface\<close> and a failed \<open>drmModePageFlip\<close> in the synchronized one are
  logged and not reported: the function returns \<open>void\<close>, the call returns (without
  waiting) with the object unchanged, which is also all that a call whose kernel request
  succeeds gives back.
\<close>

theorem per_frame_errors:
  "(b \<notin> bo ` set (tracked d) \<and> m_num_buffers d < MAX_BUFFERS d \<and> fst addfb \<noteq> 0 \<longrightarrow>
      (\<exists>d' evs. LockFrontBuffer d b info addfb = Inr (None, d', evs)
         \<and> LogError ''drmModeAddFB2() failed: %d'' \<in> set evs
         \<and> d'\<lparr>m_buffers := m_buffers d\<rparr> = d \<and> tracked d' = tracked d
         \<and> MAX_BUFFERS d' = MAX_BUFFERS d))
   \<and> (m_connector d = Some c \<and> i < MAX_BUFFERS d \<and> res \<noteq> 0 \<longrightarrow>
        PresentSurface d (Some i) False res rs =
          Some (Inr (d, [SetCrtc (m_card_fd d) (m_crtc_id d) (fb_id (m_buffers d ! i))
                           (connector_id c) (m_mode d),
                         LogError ''drmModeSetCrtc() failed: %d'']))
        \<and> PresentSurface d (Some i) False 0 rs =
          Some (Inr (d, [SetCrtc (m_card_fd d) (m_crtc_id d) (fb_id (m_buffers d ! i))
                           (connector_id c) (m_mode d)])))
   \<and> (i < MAX_BUFFERS d \<and> res \<noteq> 0 \<longrightarrow>
        PresentSurface d (Some i) True res rs =
          Some (Inr (d, [PageFlip (m_card_fd d) (m_crtc_id d) (fb_id (m_buffers d ! i)),
                         LogError ''drmModePageFlip() failed: %d'']))
        \<and> PresentSurface d (Some i) True 0 rs =
          map_option
            (\<lambda>evs. Inr (d, PageFlip (m_card_fd d) (m_crtc_id d) (fb_id (m_buffers d ! i)) # evs))
            (wait_for_flip (m_card_fd d) rs))"
proof (intro conjI impI)
  assume a: "b \<notin> bo ` set (tracked d) \<and> m_num_buffers d < MAX_BUFFERS d \<and> fst addfb \<noteq> 0"
  then have "LockFrontBuffer d b info addfb =
           Inr (None,
                d\<lparr>m_buffers := (m_buffers d)[m_num_buffers d := (m_buffers d ! m_num_buffers d)
                   \<lparr>bo := b, width := bo_width info, height := bo_height info,
                    stride := bo_stride info, format := bo_format info\<rparr>]\<rparr>,
                [GbmSurfaceLockFrontBuffer (m_fb_surface d),
                 AddFB2 (m_card_fd d) (bo_width info) (bo_height info) (bo_format info)
                   (bo_handle info) (bo_stride info),
                 LogError ''drmModeAddFB2() failed: %d''])"
    by (intro LockFrontBuffer_failed) simp_all
  then show "\<exists>d' evs. LockFrontBuffer d b info addfb = Inr (None, d', evs)
         \<and> LogError ''drmModeAddFB2() failed: %d'' \<in> set evs
         \<and> d'\<lparr>m_buffers := m_buffers d\<rparr> = d \<and> tracked d' = tracked d
         \<and> MAX_BUFFERS d' = MAX_BUFFERS d"
    by (simp add: tracked_update_beyond MAX_BUFFERS_def)
next
  assume "m_connector d = Some c \<and> i < MAX_BUFFERS d \<and> res \<noteq> 0"
  then show "PresentSurface d (Some i) False res rs =
          Some (Inr (d, [SetCrtc (m_card_fd d) (m_crtc_id d) (fb_id (m_buffers d ! i))
                           (connector_id c) (m_mode d),
                         LogError ''drmModeSetCrtc() failed: %d'']))"
    and "PresentSurface d (Some i) False 0 rs =
          Some (Inr (d, [SetCrtc (m_card_fd d) (m_crtc_id d) (fb_id (m_buffers d ! i))
                           (connector_id c) (m_mode d)]))"
    by (simp_all add: PresentSurface_def deref_def MAX_BUFFERS_def)
next
  assume "i < MAX_BUFFERS d \<and> res \<noteq> 0"
  then show "PresentSurface d (Some i) True res rs =
          Some (Inr (d, [PageFlip (m_card_fd d) (m_crtc_id d) (fb_id (m_buffers d ! i)),
                         LogError ''drmModePageFlip() failed: %d'']))"
    and "PresentSurface d (Some i) True 0 rs =
          map_option
            (\<lambda>evs. Inr (d, PageFlip (m_card_fd d) (m_crtc_id d) (fb_id (m_buffers d ! i)) # evs))
            (wait_for_flip (m_card_fd d) rs)"
    by (simp_all add: PresentSurface_def deref_def MAX_BUFFERS_def)
qed

theorem per_frame_errors_witness:
  "(\<exists>d' evs. LockFrontBuffer example_display 200 example_info (- 22, 0) = Inr (None, d', evs)
      \<and> LogError ''drmModeAddFB2() failed: %d'' \<in> set evs
      \<and> d'\<lparr>m_buffers := m_buffers example_display\<rparr> = example_display
      \<and> tracked d' = [example_entry])
   \<and> PresentSurface example_display (Some 0) False (- 22) [] =
     Some (Inr (example_display,
                [SetCrtc 3 40 77 7 (Some 0), LogError ''drmModeSetCrtc() failed: %d'']))
   \<and> PresentSurface example_display (Some 0) True (- 16) [] =
     Some (Inr (example_display,
                [PageFlip 3 40 77, LogError ''drmModePageFlip() failed: %d'']))
   \<and> LockFrontBuffer example_display 100 example_info (0, 78) =
     Inr (Some 0, example_display, [GbmSurfaceLockFrontBuffer (Some 2)])"
proof -
  note t = per_frame_errors [where b = 200 and d = example_display and addfb = "(- 22, 0)"
      and info = example_info and c = example_connector and i = 0 and res = "- 22"
      and rs = "[]"]
  have h1: "(200::nat) \<notin> bo ` set (tracked example_display)
      \<and> m_num_buffers example_display < MAX_BUFFERS example_display
      \<and> fst (- 22 :: int, 0 :: u32) \<noteq> 0"
    by (simp add: example_display_def example_entry_def tracked_def MAX_BUFFERS_def)
  have h2: "m_connector example_display = Some example_connector
      \<and> 0 < MAX_BUFFERS example_display \<and> (- 22 :: int) \<noteq> 0"
    by (simp add: example_display_def MAX_BUFFERS_def)
  have h3: "0 < MAX_BUFFERS example_display \<and> (- 16 :: int) \<noteq> 0"
    by (simp add: example_display_def MAX_BUFFERS_def)
  have tr: "tracked example_display = [example_entry]"
    by (simp add: example_display_def tracked_def)
  from t [THEN conjunct1, THEN mp, OF h1] obtain d' evs where
    "LockFrontBuffer example_display 200 example_info (- 22, 0) = Inr (None, d', evs)"
    "LogError ''drmModeAddFB2() failed: %d'' \<in> set evs"
    "d'\<lparr>m_buffers := m_buffers example_display\<rparr> = example_display"
    "tracked d' = tracked example_display"
    by blast
  with tr
  have 1: "\<exists>d' evs. LockFrontBuffer example_display 200 example_info (- 22, 0) = Inr (None, d', evs)
      \<and> LogError ''drmModeAddFB2() failed: %d'' \<in> set evs
      \<and> d'\<lparr>m_buffers := m_buffers example_display\<rparr> = example_display
      \<and> tracked d' = [example_entry]"
    by (intro exI [of _ d'] exI [of _ evs]) simp
  from t [THEN conjunct2, THEN conjunct1, THEN mp, OF h2, THEN conjunct1]
  have 2: "PresentSurface example_display (Some 0) False (- 22) [] =
     Some (Inr (example_display,
                [SetCrtc 3 40 77 7 (Some 0), LogError ''drmModeSetCrtc() failed: %d'']))"
    by (simp add: example_display_def example_connector_def example_entry_def)
  from per_frame_errors [where b = 200 and d = example_display and addfb = "(- 22, 0)"
      and info = example_info and c = example_connector and i = 0 and res = "- 16"
      and rs = "[]", THEN conjunct2, THEN conjunct2, THEN mp, OF h3, THEN conjunct1]
  have 3: "PresentSurface example_display (Some 0) True (- 16) [] =
     Some (Inr (example_display,
                [PageFlip 3 40 77, LogError ''drmModePageFlip() failed: %d'']))"
    by (simp add: example_display_def example_connector_def example_entry_def)
  have 4: "LockFrontBuffer example_display 100 example_info (0, 78) =
     Inr (Some 0, example_display, [GbmSurfaceLockFrontBuffer (Some 2)])"
    by (simp add: LockFrontBuffer_def find_buffer.simps example_display_def example_entry_def)
  from 1 2 3 4 show ?thesis by simp
qed

text \<open>
  C3 as stated fails: on the same object and buffer, the immediate \<open>PresentSurface\<close>
  with a failing \<open>drmModeSetCrtc\<close> and the one with a succeeding request both return
  with the same object and no value; only the log differs. The same holds for a failing
  and a succeeding \<open>drmModePageFlip\<close>.
\<close>

theorem per_frame_errors_counterexample:
  "PresentSurface example_display (Some 0) False (- 22) [] =
     Some (Inr (example_display,
                [SetCrtc 3 40 77 7 (Some 0), LogError ''drmModeSetCrtc() failed: %d'']))
   \<and> PresentSurface example_display (Some 0) False 0 [] =
     Some (Inr (example_display, [SetCrtc 3 40 77 7 (Some 0)]))
   \<and> PresentSurface example_display (Some 0) True (- 16) [SelectReady True] =
     Some (Inr (example_display,
                [PageFlip 3 40 77, LogError ''drmModePageFlip() failed: %d'']))
   \<and> PresentSurface example_display (Some 0) True 0 [SelectReady True] =
     Some (Inr (example_display, [PageFlip 3 40 77, Select 3, HandleEvent 3]))"
  by (simp add: PresentSurface_def deref_def example_display_def example_connector_def
      example_entry_def)

end
